theory Spec2Isabelle
  imports Main
begin

section \<open>Values of the JavaScript runtime\<close>

text \<open>
  The client of \<^verbatim>\<open>packages/create-catalyst/src/utils/https.ts\<close> talks to the
  outside through \<^verbatim>\<open>fetch\<close>, the console and \<^verbatim>\<open>process.exit\<close>. The
  embedding makes each of them explicit: a call returns an outcome together with the
  world it leaves behind (the requests handed to \<^verbatim>\<open>fetch\<close> so far, and the
  console lines written so far).

  JSON values are a datatype. The type \<open>'n\<close> stands for the numbers of the
  runtime: the client only ever passes them through, so nothing is assumed about them.
  An object is the list of its own properties, in order; a parsed object has every key
  once.
\<close>

datatype 'n json =
    JNull
  | JBool bool
  | JNum 'n
  | JStr string
  | JArr "'n json list"
  | JObj "(string \<times> 'n json) list"

text \<open>
  What the client can throw. \<open>Error\<close> is \<^verbatim>\<open>new Error(message)\<close>, the only
  error the file constructs itself. \<open>TypeError\<close> is the rejection of \<^verbatim>\<open>fetch\<close>
  on a network failure and \<open>SyntaxError\<close> the rejection of
  \<^verbatim>\<open>response.json()\<close> on a body that is not JSON. The last two are named by
  the spec: \<open>ValidationError\<close> is raised by the response validator and carries the
  path of the offending value, what was expected there and what was received;
  \<open>AuthTimeoutError\<close> ends a polling loop whose device code has expired.
\<close>

datatype error =
    Error string
  | TypeError string
  | SyntaxError
  | ValidationError "string list" string string
  | AuthTimeoutError

text \<open>
  The three ways a call of the client can end: it returns, it throws (for an
  \<^verbatim>\<open>async\<close> method: the promise rejects), or it ends the process with
  \<^verbatim>\<open>process.exit(code)\<close>.
\<close>

datatype 'a outcome =
    Returned 'a
  | Thrown error
  | Exited int

text \<open>A request body: a string, here either given raw or as \<^verbatim>\<open>JSON.stringify(v)\<close>.\<close>

datatype 'n body_init =
    Raw string
  | JSON_stringify "'n json"

text \<open>
  \<^verbatim>\<open>RequestInit\<close> as the methods of the client use it: headers given as a plain
  object, a method and a body (\<open>None\<close>: the property is absent). A
  \<open>request\<close> is what \<^verbatim>\<open>fetch(url, options)\<close> receives. Header names are
  property names of an object here, so they are compared as written.
\<close>

record 'n RequestInit =
  init_headers :: "(string \<times> string) list option"
  init_method :: "string option"
  init_body :: "'n body_init option"

record 'n request =
  url :: string
  req_method :: "string option"
  req_headers :: "(string \<times> string) list"
  req_body :: "'n body_init option"

text \<open>
  A response: \<open>status\<close> (an unsigned short), \<open>statusText\<close>, and the body as
  \<^verbatim>\<open>response.json()\<close> reads it (\<open>None\<close>: the body is not JSON).
\<close>

record 'n response =
  status :: nat
  statusText :: string
  json_body :: "'n json option"

definition ok :: "'n response \<Rightarrow> bool" where
  "ok r = (200 \<le> status r \<and> status r \<le> 299)"

definition response_json :: "'n response \<Rightarrow> error + 'n json" where
  "response_json r = (case json_body r of None \<Rightarrow> Inl SyntaxError | Some j \<Rightarrow> Inr j)"

text \<open>
  Console output. \<^verbatim>\<open>chalk.red(s)\<close> and \<^verbatim>\<open>chalk.yellow(s)\<close> are kept as
  constructors around the text they colour.
\<close>

datatype styled = Red string | Yellow string

datatype console_entry = ConsoleError styled | ConsoleWarn styled

record 'n world =
  calls :: "'n request list"
  console :: "console_entry list"

text \<open>
  What the runtime provides and the client does not define: the transport behind
  \<^verbatim>\<open>fetch\<close> (its answer may depend on every request issued before; \<open>Inl\<close> is a
  network failure), the URL parser behind \<^verbatim>\<open>z.string().url()\<close>, and the
  rendering of a number inside a template literal.
\<close>

record 'n env =
  transport :: "'n request list \<Rightarrow> 'n request \<Rightarrow> string + 'n response"
  isUrl :: "string \<Rightarrow> bool"
  numberToString :: "'n \<Rightarrow> string"

definition fetch :: "'n env \<Rightarrow> 'n request \<Rightarrow> 'n world \<Rightarrow> 'n response outcome \<times> 'n world" where
  "fetch e req w =
     (let w' = w\<lparr>calls := calls w @ [req]\<rparr> in
      case transport e (calls w) req of
        Inl msg \<Rightarrow> (Thrown (TypeError msg), w')
      | Inr r \<Rightarrow> (Returned r, w'))"

subsection \<open>Strings and objects\<close>

text \<open>\<^verbatim>\<open>Array.prototype.join\<close> on an array of strings.\<close>

fun join :: "string \<Rightarrow> string list \<Rightarrow> string" where
  "join sep [] = []"
| "join sep [x] = x"
| "join sep (x # y # ys) = x @ sep @ join sep (y # ys)"

text \<open>The decimal digits of a non-negative integer, as a template literal renders it.\<close>

fun show_nat :: "nat \<Rightarrow> string" where
  "show_nat n =
     (if n < 10 then [''0123456789'' ! n]
      else show_nat (n div 10) @ [''0123456789'' ! (n mod 10)])"

declare show_nat.simps [simp del]

definition nl :: string where
  "nl = [CHR 0x0A]"

text \<open>
  Assigning a property of an object: an existing key keeps its place and takes the new
  value, a new key goes last. \<open>spread src obj\<close> is \<^verbatim>\<open>{...obj, ...src}\<close>.
\<close>

fun set_prop :: "string \<Rightarrow> 'v \<Rightarrow> (string \<times> 'v) list \<Rightarrow> (string \<times> 'v) list" where
  "set_prop k v [] = [(k, v)]"
| "set_prop k v ((k', v') # ps) =
     (if k' = k then (k', v) # ps else (k', v') # set_prop k v ps)"

definition spread :: "(string \<times> 'v) list \<Rightarrow> (string \<times> 'v) list \<Rightarrow> (string \<times> 'v) list" where
  "spread src obj = fold (\<lambda>(k, v). set_prop k v) src obj"

definition get_prop :: "(string \<times> 'v) list \<Rightarrow> string \<Rightarrow> 'v option" where
  "get_prop obj k = map_of obj k"

subsection \<open>Header names\<close>

text \<open>
  What the runtime does with the headers of the options object when it builds the
  request: a header name is matched without regard to the case of its ASCII letters,
  and every property whose name matches is sent. \<open>header_values hs name\<close> is the
  list of the values the request carries under \<open>name\<close>, in the order of the
  properties. \<open>collides name hs\<close> says that an object has a property whose name is
  \<open>name\<close> in another spelling.
\<close>

definition lower_char :: "char \<Rightarrow> char" where
  "lower_char c =
     (case map_of (zip ''ABCDEFGHIJKLMNOPQRSTUVWXYZ'' ''abcdefghijklmnopqrstuvwxyz'') c of
        None \<Rightarrow> c
      | Some d \<Rightarrow> d)"

definition lower :: "string \<Rightarrow> string" where
  "lower s = map lower_char s"

definition header_values :: "(string \<times> string) list \<Rightarrow> string \<Rightarrow> string list" where
  "header_values hs name = map snd (filter (\<lambda>(k, v). lower k = lower name) hs)"

definition collides :: "string \<Rightarrow> (string \<times> string) list \<Rightarrow> bool" where
  "collides name hs = list_ex (\<lambda>(k, v). lower k = lower name \<and> k \<noteq> name) hs"

section \<open>The client\<close>

text \<open>
  \<^verbatim>\<open>HttpsConfig\<close>: every field optional. \<^verbatim>\<open>Https\<close>: every field a string.
\<close>

record HttpsConfig =
  cfg_bigCommerceApiUrl :: "string option"
  cfg_bigCommerceAuthUrl :: "string option"
  cfg_sampleDataApiUrl :: "string option"
  cfg_storeHash :: "string option"
  cfg_accessToken :: "string option"

record Https =
  bigCommerceApiUrl :: string
  bigCommerceAuthUrl :: string
  sampleDataApiUrl :: string
  storeHash :: string
  accessToken :: string
  userAgent :: string

definition DEVICE_OAUTH_CLIENT_ID :: string where
  "DEVICE_OAUTH_CLIENT_ID = ''acse0vvawm9r1n0evag4b8e1ea1fo90''"

text \<open>\<^verbatim>\<open>x ?? ''\<close>\<close>

definition nullish_or_empty :: "string option \<Rightarrow> string" where
  "nullish_or_empty x = (case x of None \<Rightarrow> [] | Some s \<Rightarrow> s)"

text \<open>
  The constructor. \<^verbatim>\<open>getCLIUserAgent\<close> lives in another module; its result is
  the parameter \<open>cliUserAgent\<close>.
\<close>

definition Https_constructor :: "string \<Rightarrow> HttpsConfig \<Rightarrow> Https" where
  "Https_constructor cliUserAgent c =
     \<lparr> bigCommerceApiUrl = nullish_or_empty (cfg_bigCommerceApiUrl c),
       bigCommerceAuthUrl = nullish_or_empty (cfg_bigCommerceAuthUrl c),
       sampleDataApiUrl = nullish_or_empty (cfg_sampleDataApiUrl c),
       storeHash = nullish_or_empty (cfg_storeHash c),
       accessToken = nullish_or_empty (cfg_accessToken c),
       userAgent = cliUserAgent \<rparr>"

text \<open>
  \<^verbatim>\<open>const { headers = {}, ...rest } = opts\<close>: the headers of the caller, or the
  empty object. \<open>rest\<close> is the method and the body; a method in it overrides the
  default written before the spread.
\<close>

definition opts_headers :: "'n RequestInit \<Rightarrow> (string \<times> string) list" where
  "opts_headers opts = (case init_headers opts of None \<Rightarrow> [] | Some hs \<Rightarrow> hs)"

definition rest_method :: "string option \<Rightarrow> 'n RequestInit \<Rightarrow> string option" where
  "rest_method dflt opts = (case init_method opts of None \<Rightarrow> dflt | Some m \<Rightarrow> Some m)"

definition no_opts :: "'n RequestInit" where
  "no_opts = \<lparr> init_headers = None, init_method = None, init_body = None \<rparr>"

text \<open>
  Each of the three request methods checks its credentials, builds \<open>options\<close> and
  calls \<^verbatim>\<open>fetch(url, options)\<close>. The pair of URL and options is the request.
\<close>

definition auth_request :: "Https \<Rightarrow> string \<Rightarrow> 'n RequestInit \<Rightarrow> 'n request" where
  "auth_request this path opts =
     \<lparr> url = bigCommerceAuthUrl this @ path,
       req_method = rest_method (Some ''POST'') opts,
       req_headers =
         set_prop ''User-Agent'' (userAgent this)
           (set_prop ''Content-Type'' ''application/json''
             (set_prop ''Accept'' ''application/json''
               (spread (opts_headers opts) []))),
       req_body = init_body opts \<rparr>"

definition auth :: "'n env \<Rightarrow> Https \<Rightarrow> string \<Rightarrow> 'n RequestInit \<Rightarrow> 'n world
    \<Rightarrow> 'n response outcome \<times> 'n world" where
  "auth e this path opts w =
     (if bigCommerceAuthUrl this = []
      then (Thrown (Error ''bigCommerceAuthUrl is required to make API requests''), w)
      else fetch e (auth_request this path opts) w)"

definition api_request :: "Https \<Rightarrow> string \<Rightarrow> 'n RequestInit \<Rightarrow> 'n request" where
  "api_request this path opts =
     \<lparr> url = bigCommerceApiUrl this @ ''/stores/'' @ storeHash this @ path,
       req_method = rest_method None opts,
       req_headers =
         set_prop ''User-Agent'' (userAgent this)
           (set_prop ''X-Auth-Token'' (accessToken this)
             (set_prop ''Accept'' ''application/json''
               (spread (opts_headers opts) []))),
       req_body = init_body opts \<rparr>"

definition api :: "'n env \<Rightarrow> Https \<Rightarrow> string \<Rightarrow> 'n RequestInit \<Rightarrow> 'n world
    \<Rightarrow> 'n response outcome \<times> 'n world" where
  "api e this path opts w =
     (if bigCommerceApiUrl this = [] \<or> storeHash this = [] \<or> accessToken this = []
      then (Thrown (Error
        ''bigCommerceApiUrl, storeHash, and accessToken are required to make API requests''), w)
      else fetch e (api_request this path opts) w)"

definition sampleDataApi_request :: "Https \<Rightarrow> string \<Rightarrow> 'n RequestInit \<Rightarrow> 'n request" where
  "sampleDataApi_request this path opts =
     \<lparr> url = sampleDataApiUrl this @ ''/stores/'' @ storeHash this @ path,
       req_method = rest_method (Some ''POST'') opts,
       req_headers =
         set_prop ''User-Agent'' (userAgent this)
           (set_prop ''X-Auth-Token'' (accessToken this)
             (set_prop ''Content-Type'' ''application/json''
               (set_prop ''Accept'' ''application/json''
                 (spread (opts_headers opts) [])))),
       req_body = init_body opts \<rparr>"

definition sampleDataApi :: "'n env \<Rightarrow> Https \<Rightarrow> string \<Rightarrow> 'n RequestInit \<Rightarrow> 'n world
    \<Rightarrow> 'n response outcome \<times> 'n world" where
  "sampleDataApi e this path opts w =
     (if sampleDataApiUrl this = [] \<or> storeHash this = [] \<or> accessToken this = []
      then (Thrown (Error
        ''sampleDataApiUrl, storeHash, and accessToken are required to make API requests''), w)
      else fetch e (sampleDataApi_request this path opts) w)"

subsection \<open>Response validation\<close>

text \<open>
  The shapes the client builds with zod: \<^verbatim>\<open>z.string()\<close> with its checks
  (\<^verbatim>\<open>.min(n)\<close>, \<^verbatim>\<open>.url()\<close>), \<^verbatim>\<open>z.number()\<close>, \<^verbatim>\<open>z.boolean()\<close>,
  \<^verbatim>\<open>z.array(s)\<close> and \<^verbatim>\<open>z.object({...})\<close>. Every key of an object shape
  is required; keys of the payload that the shape does not name are dropped from the
  result.
\<close>

datatype check = Min nat | IsUrl

datatype schema =
    ZString "check list"
  | ZNumber
  | ZBoolean
  | ZArray schema
  | ZObject "(string \<times> schema) list"

fun type_name :: "'n json option \<Rightarrow> string" where
  "type_name None = ''undefined''"
| "type_name (Some JNull) = ''null''"
| "type_name (Some (JBool b)) = ''boolean''"
| "type_name (Some (JNum n)) = ''number''"
| "type_name (Some (JStr s)) = ''string''"
| "type_name (Some (JArr xs)) = ''array''"
| "type_name (Some (JObj ps)) = ''object''"

fun check_string :: "(string \<Rightarrow> bool) \<Rightarrow> string \<Rightarrow> check \<Rightarrow> bool" where
  "check_string u s (Min n) = (n \<le> length s)"
| "check_string u s IsUrl = u s"

fun check_name :: "check \<Rightarrow> string" where
  "check_name (Min n) = ''string of at least '' @ show_nat n @ '' character(s)''"
| "check_name IsUrl = ''url''"

text \<open>
  Modelled from the spec: the conformance check of the response validator (the module
  \<^verbatim>\<open>./parse\<close> is not among the sources). \<open>validate\<close> walks payload and
  shape together, the path so far in \<open>p\<close>; the first value that does not conform
  ends it with a \<open>ValidationError{path, expected, received}\<close>. A missing key is
  the value \<open>None\<close> (\<^verbatim>\<open>undefined\<close>).
\<close>

fun validate :: "(string \<Rightarrow> bool) \<Rightarrow> string list \<Rightarrow> schema \<Rightarrow> 'n json option \<Rightarrow> error + 'n json"
  and validate_shape :: "(string \<Rightarrow> bool) \<Rightarrow> string list \<Rightarrow> (string \<times> schema) list
    \<Rightarrow> (string \<times> 'n json) list \<Rightarrow> error + (string \<times> 'n json) list"
  and validate_items :: "(string \<Rightarrow> bool) \<Rightarrow> string list \<Rightarrow> nat \<Rightarrow> schema
    \<Rightarrow> 'n json list \<Rightarrow> error + 'n json list"
where
  "validate u p (ZString cs) v =
     (case v of
        Some (JStr s) \<Rightarrow>
          (case filter (\<lambda>c. \<not> check_string u s c) cs of
             [] \<Rightarrow> Inr (JStr s)
           | c # _ \<Rightarrow> Inl (ValidationError p (check_name c) ''string''))
      | _ \<Rightarrow> Inl (ValidationError p ''string'' (type_name v)))"
| "validate u p ZNumber v =
     (case v of
        Some (JNum n) \<Rightarrow> Inr (JNum n)
      | _ \<Rightarrow> Inl (ValidationError p ''number'' (type_name v)))"
| "validate u p ZBoolean v =
     (case v of
        Some (JBool b) \<Rightarrow> Inr (JBool b)
      | _ \<Rightarrow> Inl (ValidationError p ''boolean'' (type_name v)))"
| "validate u p (ZArray s) v =
     (case v of
        Some (JArr xs) \<Rightarrow>
          (case validate_items u p 0 s xs of
             Inl err \<Rightarrow> Inl err
           | Inr ys \<Rightarrow> Inr (JArr ys))
      | _ \<Rightarrow> Inl (ValidationError p ''array'' (type_name v)))"
| "validate u p (ZObject shape) v =
     (case v of
        Some (JObj ps) \<Rightarrow>
          (case validate_shape u p shape ps of
             Inl err \<Rightarrow> Inl err
           | Inr qs \<Rightarrow> Inr (JObj qs))
      | _ \<Rightarrow> Inl (ValidationError p ''object'' (type_name v)))"
| "validate_shape u p [] ps = Inr []"
| "validate_shape u p ((k, s) # shape) ps =
     (case validate u (p @ [k]) s (get_prop ps k) of
        Inl err \<Rightarrow> Inl err
      | Inr v \<Rightarrow>
          (case validate_shape u p shape ps of
             Inl err \<Rightarrow> Inl err
           | Inr qs \<Rightarrow> Inr ((k, v) # qs)))"
| "validate_items u p i s [] = Inr []"
| "validate_items u p i s (x # xs) =
     (case validate u (p @ [show_nat i]) s (Some x) of
        Inl err \<Rightarrow> Inl err
      | Inr y \<Rightarrow>
          (case validate_items u p (Suc i) s xs of
             Inl err \<Rightarrow> Inl err
           | Inr ys \<Rightarrow> Inr (y # ys)))"

text \<open>
  Modelled from the spec: \<^verbatim>\<open>parse(raw, shape)\<close> of the module
  \<^verbatim>\<open>./parse\<close>, which is not among the sources. By the spec it takes the raw
  payload and a shape, returns the conforming value, fails with a
  \<open>ValidationError\<close> otherwise, and has no side effect.
\<close>

definition parse :: "'n env \<Rightarrow> 'n json \<Rightarrow> schema \<Rightarrow> 'n json outcome" where
  "parse e raw shape =
     (case validate (isUrl e) [] shape (Some raw) of
        Inl err \<Rightarrow> Thrown err
      | Inr v \<Rightarrow> Returned v)"

text \<open>\<^verbatim>\<open>parse(await res.json(), Schema)\<close>, the last line of every method that returns a payload.\<close>

definition parse_response :: "'n env \<Rightarrow> 'n response \<Rightarrow> schema \<Rightarrow> 'n json outcome" where
  "parse_response e res shape =
     (case response_json res of
        Inl err \<Rightarrow> Thrown err
      | Inr raw \<Rightarrow> parse e raw shape)"

text \<open>\<^verbatim>\<open>console.error(chalk.red(msg)); process.exit(1)\<close>\<close>

definition exit_with_error :: "string \<Rightarrow> 'n world \<Rightarrow> 'a outcome \<times> 'n world" where
  "exit_with_error msg w = (Exited 1, w\<lparr>console := console w @ [ConsoleError (Red msg)]\<rparr>)"

text \<open>The text after the method and path in every such message: status and status text.\<close>

definition failed_with :: "'n response \<Rightarrow> string" where
  "failed_with res = '' failed: '' @ show_nat (status res) @ '' '' @ statusText res @ nl"

subsection \<open>The shapes of the responses\<close>

definition BigCommerceStoreInfo :: schema where
  "BigCommerceStoreInfo =
     ZObject [(''features'', ZObject [(''storefront_limits'',
       ZObject [(''active'', ZNumber), (''total_including_inactive'', ZNumber)])])]"

definition BigCommerceV3ApiResponseSchema :: "schema \<Rightarrow> schema" where
  "BigCommerceV3ApiResponseSchema shape = ZObject [(''data'', shape), (''meta'', ZObject [])]"

definition BigCommerceChannelsV3ResponseSchema :: schema where
  "BigCommerceChannelsV3ResponseSchema =
     BigCommerceV3ApiResponseSchema
       (ZArray (ZObject [(''id'', ZNumber), (''name'', ZString []),
          (''status'', ZString []), (''platform'', ZString [])]))"

definition DeviceCodeSchema :: schema where
  "DeviceCodeSchema =
     ZObject [(''device_code'', ZString []), (''user_code'', ZString []),
       (''verification_uri'', ZString []), (''expires_in'', ZNumber), (''interval'', ZNumber)]"

definition DeviceCodeSuccessSchema :: schema where
  "DeviceCodeSuccessSchema =
     ZObject [(''access_token'', ZString []), (''store_hash'', ZString []),
       (''context'', ZString []), (''api_uri'', ZString [IsUrl])]"

definition BigCommerceStorefrontTokenSchema :: schema where
  "BigCommerceStorefrontTokenSchema = ZObject [(''data'', ZObject [(''token'', ZString [])])]"

definition CheckEligibilitySchema :: schema where
  "CheckEligibilitySchema =
     ZObject [(''data'', ZObject [(''eligible'', ZBoolean), (''message'', ZString [])])]"

definition SampleDataChannelCreateSchema :: schema where
  "SampleDataChannelCreateSchema =
     ZObject [(''data'', ZObject [(''id'', ZNumber), (''name'', ZString [Min 1]),
       (''storefront_api_token'', ZString [])])]"

subsection \<open>The device-code grant\<close>

definition device_scopes :: "string list" where
  "device_scopes =
     [''store_channel_settings'', ''store_sites'', ''store_storefront_api'',
      ''store_v2_content'', ''store_v2_information'', ''store_v2_products'', ''store_cart'']"

definition getDeviceCode :: "'n env \<Rightarrow> Https \<Rightarrow> 'n world \<Rightarrow> 'n json outcome \<times> 'n world" where
  "getDeviceCode e this w =
     (case auth e this ''/device/token''
             \<lparr> init_headers = None, init_method = None,
               init_body = Some (JSON_stringify (JObj
                 [(''scopes'', JStr (join '' '' device_scopes)),
                  (''client_id'', JStr DEVICE_OAUTH_CLIENT_ID)])) \<rparr> w of
        (Returned response, w1) \<Rightarrow>
          if \<not> ok response
          then exit_with_error (nl @ ''POST /device/token'' @ failed_with response) w1
          else (parse_response e response DeviceCodeSchema, w1)
      | (Thrown err, w1) \<Rightarrow> (Thrown err, w1)
      | (Exited c, w1) \<Rightarrow> (Exited c, w1))"

definition checkDeviceCode :: "'n env \<Rightarrow> Https \<Rightarrow> string \<Rightarrow> 'n world \<Rightarrow> 'n json outcome \<times> 'n world" where
  "checkDeviceCode e this deviceCode w =
     (case auth e this ''/device/token''
             \<lparr> init_headers = None, init_method = None,
               init_body = Some (JSON_stringify (JObj
                 [(''device_code'', JStr deviceCode),
                  (''client_id'', JStr DEVICE_OAUTH_CLIENT_ID)])) \<rparr> w of
        (Returned response, w1) \<Rightarrow>
          if status response \<noteq> 200
          then (Thrown (Error ''Device code not yet verified''), w1)
          else (parse_response e response DeviceCodeSuccessSchema, w1)
      | (Thrown err, w1) \<Rightarrow> (Thrown err, w1)
      | (Exited c, w1) \<Rightarrow> (Exited c, w1))"

subsection \<open>The management API\<close>

definition storeInformation :: "'n env \<Rightarrow> Https \<Rightarrow> 'n world \<Rightarrow> 'n json outcome \<times> 'n world" where
  "storeInformation e this w =
     (case api e this ''/v2/store'' no_opts w of
        (Returned res, w1) \<Rightarrow>
          if \<not> ok res
          then exit_with_error (nl @ ''GET /v2/store'' @ failed_with res) w1
          else (parse_response e res BigCommerceStoreInfo, w1)
      | (Thrown err, w1) \<Rightarrow> (Thrown err, w1)
      | (Exited c, w1) \<Rightarrow> (Exited c, w1))"

text \<open>\<open>query\<close> defaults to the empty string at the call site.\<close>

definition channels :: "'n env \<Rightarrow> Https \<Rightarrow> string \<Rightarrow> 'n world \<Rightarrow> 'n json outcome \<times> 'n world" where
  "channels e this query w =
     (case api e this (''/v3/channels'' @ query) no_opts w of
        (Returned res, w1) \<Rightarrow>
          if \<not> ok res
          then exit_with_error (nl @ ''GET /v3/channels'' @ failed_with res) w1
          else (parse_response e res BigCommerceChannelsV3ResponseSchema, w1)
      | (Thrown err, w1) \<Rightarrow> (Thrown err, w1)
      | (Exited c, w1) \<Rightarrow> (Exited c, w1))"

definition channel_menus_link :: string where
  "channel_menus_link =
     ''https://developer.bigcommerce.com/docs/rest-management/channels/menus#create-channel-menus''"

definition createChannelMenus :: "'n env \<Rightarrow> Https \<Rightarrow> 'n \<Rightarrow> 'n world \<Rightarrow> unit outcome \<times> 'n world" where
  "createChannelMenus e this channelId w =
     (case api e this (''/v3/channels/'' @ numberToString e channelId @ ''/channel-menus'')
             \<lparr> init_headers = Some [(''Content-Type'', ''application/json'')],
               init_method = Some ''POST'',
               init_body = Some (JSON_stringify (JObj
                 [(''bigcommerce_protected_app_sections'',
                   JArr [JStr ''storefront_settings'', JStr ''currencies'', JStr ''domains'',
                         JStr ''notifications'', JStr ''social''])])) \<rparr> w of
        (Returned res, w1) \<Rightarrow>
          if \<not> ok res
          then (Returned (),
            w1\<lparr>console := console w1 @ [ConsoleWarn (Yellow
              (nl @ ''Failed to create channel menus: '' @ show_nat (status res) @ '' ''
                 @ statusText res @ ''. You may want to create these later: ''
                 @ channel_menus_link @ nl))]\<rparr>)
          else (Returned (), w1)
      | (Thrown err, w1) \<Rightarrow> (Thrown err, w1)
      | (Exited c, w1) \<Rightarrow> (Exited c, w1))"

definition MAX_EPOC_EXPIRES_AT :: "'n::numeral" where
  "MAX_EPOC_EXPIRES_AT = 2147483647"

definition storefrontToken :: "('n::numeral) env \<Rightarrow> Https \<Rightarrow> 'n world \<Rightarrow> 'n json outcome \<times> 'n world" where
  "storefrontToken e this w =
     (case api e this ''/v3/storefront/api-token''
             \<lparr> init_headers = Some [(''Content-Type'', ''application/json'')],
               init_method = Some ''POST'',
               init_body = Some (JSON_stringify (JObj
                 [(''expires_at'', JNum MAX_EPOC_EXPIRES_AT), (''channel_ids'', JArr [])])) \<rparr> w of
        (Returned res, w1) \<Rightarrow>
          if \<not> ok res
          then exit_with_error (nl @ ''POST /v3/storefront/api-token'' @ failed_with res) w1
          else (parse_response e res BigCommerceStorefrontTokenSchema, w1)
      | (Thrown err, w1) \<Rightarrow> (Thrown err, w1)
      | (Exited c, w1) \<Rightarrow> (Exited c, w1))"

subsection \<open>The sample-data API\<close>

definition checkEligibility :: "'n env \<Rightarrow> Https \<Rightarrow> 'n world \<Rightarrow> 'n json outcome \<times> 'n world" where
  "checkEligibility e this w =
     (case sampleDataApi e this ''/v3/channels/catalyst/eligibility''
             \<lparr> init_headers = None, init_method = Some ''GET'', init_body = None \<rparr> w of
        (Returned res, w1) \<Rightarrow>
          if \<not> ok res
          then exit_with_error (nl @ ''GET /v3/channels/catalyst/eligibility'' @ failed_with res) w1
          else (parse_response e res CheckEligibilitySchema, w1)
      | (Thrown err, w1) \<Rightarrow> (Thrown err, w1)
      | (Exited c, w1) \<Rightarrow> (Exited c, w1))"

definition createChannel :: "'n env \<Rightarrow> Https \<Rightarrow> string \<Rightarrow> 'n world \<Rightarrow> 'n json outcome \<times> 'n world" where
  "createChannel e this channelName w =
     (case sampleDataApi e this ''/v3/channels/catalyst''
             \<lparr> init_headers = None, init_method = None,
               init_body = Some (JSON_stringify (JObj
                 [(''name'', JStr channelName), (''tokenType'', JStr ''normal'')])) \<rparr> w of
        (Returned res, w1) \<Rightarrow>
          if \<not> ok res
          then exit_with_error (nl @ ''POST /v3/channels/catalyst'' @ failed_with res) w1
          else (parse_response e res SampleDataChannelCreateSchema, w1)
      | (Thrown err, w1) \<Rightarrow> (Thrown err, w1)
      | (Exited c, w1) \<Rightarrow> (Exited c, w1))"

subsection \<open>One call after another\<close>

text \<open>
  \<^verbatim>\<open>const x = await f(); ... g(x)\<close> in a caller: the second call is made
  only when the first has returned; a throw or an exit of the first ends both.
\<close>

definition and_then :: "('w \<Rightarrow> 'a outcome \<times> 'w) \<Rightarrow> ('a \<Rightarrow> 'w \<Rightarrow> 'b outcome \<times> 'w)
    \<Rightarrow> 'w \<Rightarrow> 'b outcome \<times> 'w" where
  "and_then f g w =
     (case f w of
        (Returned x, w1) \<Rightarrow> g x w1
      | (Thrown err, w1) \<Rightarrow> (Thrown err, w1)
      | (Exited c, w1) \<Rightarrow> (Exited c, w1))"

subsection \<open>Polling for the token\<close>

text \<open>
  Modelled from the spec: the \<open>DeviceCode\<close> the polling loop consumes, which by
  the spec carries the device code, the user code, the verification URI, the seconds
  until it expires and the seconds between two polls.
\<close>

record DeviceCode =
  deviceCode :: string
  userCode :: string
  verificationUri :: string
  expiresInSeconds :: nat
  pollIntervalSeconds :: nat

text \<open>
  Modelled from the spec: the polling loop of the device-code grant, whose code is not
  among the sources (only \<open>checkDeviceCode\<close>, the single attempt, is). By the spec
  the loop makes one attempt every \<open>pollIntervalSeconds\<close>; a grant ends it; an
  attempt that is not yet authorized keeps it going; it stops with
  \<open>AuthTimeoutError\<close> once the elapsed time would exceed \<open>expiresInSeconds\<close>.
  Any other failure of an attempt is fatal and ends the loop. The clock is virtual:
  \<open>elapsed\<close> counts the seconds since the device code was issued, the loop waits
  one interval before each attempt, so the k-th attempt is made at
  \<open>k * pollIntervalSeconds\<close>, and it stops when the next wait would end after
  \<open>expiresInSeconds\<close>. A loop that never stops is the value \<open>None\<close>.
\<close>

partial_function (option) pollFrom :: "'n env \<Rightarrow> Https \<Rightarrow> DeviceCode \<Rightarrow> nat \<Rightarrow> 'n world
    \<Rightarrow> ('n json outcome \<times> 'n world) option" where
  "pollFrom e this code elapsed w =
     (if expiresInSeconds code < elapsed + pollIntervalSeconds code
      then Some (Thrown AuthTimeoutError, w)
      else
        (case checkDeviceCode e this (deviceCode code) w of
           (Returned grant, w1) \<Rightarrow> Some (Returned grant, w1)
         | (Thrown err, w1) \<Rightarrow>
             if err = Error ''Device code not yet verified''
             then pollFrom e this code (elapsed + pollIntervalSeconds code) w1
             else Some (Thrown err, w1)
         | (Exited c, w1) \<Rightarrow> Some (Exited c, w1)))"

declare pollFrom.simps [code]

text \<open>
  Modelled from the spec: \<open>pollForToken(code)\<close>, the loop started when the device
  code is issued.
\<close>

definition pollForToken :: "'n env \<Rightarrow> Https \<Rightarrow> DeviceCode \<Rightarrow> 'n world
    \<Rightarrow> ('n json outcome \<times> 'n world) option" where
  "pollForToken e this code w = pollFrom e this code 0 w"

section \<open>Concrete runs\<close>

text \<open>
  A runtime over integer numbers whose transport gives every request the same answer,
  a client with every credential set, and the world before any request. The theorems
  below are run on them.
\<close>

definition show_int :: "int \<Rightarrow> string" where
  "show_int i = (if i < 0 then CHR ''-'' # show_nat (nat (- i)) else show_nat (nat i))"

definition canned :: "int response \<Rightarrow> int env" where
  "canned r =
     \<lparr> transport = (\<lambda>cs req. Inr r),
       isUrl = (\<lambda>s. take 8 s = ''https://''),
       numberToString = show_int \<rparr>"

definition demo_config :: HttpsConfig where
  "demo_config =
     \<lparr> cfg_bigCommerceApiUrl = Some ''https://api.example'',
       cfg_bigCommerceAuthUrl = Some ''https://login.example'',
       cfg_sampleDataApiUrl = Some ''https://sample.example'',
       cfg_storeHash = Some ''abc123'',
       cfg_accessToken = Some ''secret'' \<rparr>"

definition demo_client :: Https where
  "demo_client = Https_constructor ''create-catalyst'' demo_config"

definition fresh :: "int world" where
  "fresh = \<lparr> calls = [], console = [] \<rparr>"

definition server_error :: "int response" where
  "server_error = \<lparr> status = 500, statusText = ''Internal Server Error'', json_body = None \<rparr>"

definition success :: "int json \<Rightarrow> int response" where
  "success j = \<lparr> status = 200, statusText = ''OK'', json_body = Some j \<rparr>"

definition hostile_opts :: "int RequestInit" where
  "hostile_opts =
     \<lparr> init_headers = Some [(''Accept'', ''text/html''), (''User-Agent'', ''curl''),
         (''X-Auth-Token'', ''forged''), (''Content-Type'', ''text/plain''), (''X-Trace'', ''1'')],
       init_method = Some ''PUT'',
       init_body = None \<rparr>"

definition lowercase_opts :: "int RequestInit" where
  "lowercase_opts =
     \<lparr> init_headers = Some [(''accept'', ''text/html''), (''x-auth-token'', ''forged'')],
       init_method = None,
       init_body = None \<rparr>"

definition device_payload :: "int json" where
  "device_payload =
     JObj [(''device_code'', JStr ''abc''), (''user_code'', JStr ''XYZ''),
       (''verification_uri'', JStr ''https://x''), (''expires_in'', JNum 60),
       (''interval'', JNum 5)]"

definition grant_payload :: "int json" where
  "grant_payload =
     JObj [(''access_token'', JStr ''secret''), (''store_hash'', JStr ''abc123''),
       (''context'', JStr ''stores/abc123''),
       (''api_uri'', JStr ''https://api.example'')]"

definition channel_payload :: "string \<Rightarrow> int json" where
  "channel_payload name =
     JObj [(''data'', JObj [(''id'', JNum 7), (''name'', JStr name),
       (''storefront_api_token'', JStr ''tok'')])]"

definition created_with :: "int json \<Rightarrow> int response" where
  "created_with j = \<lparr> status = 201, statusText = ''Created'', json_body = Some j \<rparr>"

definition demo_device_code :: DeviceCode where
  "demo_device_code =
     \<lparr> deviceCode = ''abc'', userCode = ''XYZ'', verificationUri = ''https://x'',
       expiresInSeconds = 60, pollIntervalSeconds = 5 \<rparr>"

section \<open>Properties\<close>

subsection \<open>Objects\<close>

lemma map_of_set_prop: "map_of (set_prop k v ps) = (map_of ps)(k \<mapsto> v)"
  by (induction ps) auto

lemma get_set_prop: "get_prop (set_prop k v ps) k' = (if k' = k then Some v else get_prop ps k')"
  by (simp add: get_prop_def map_of_set_prop)

subsection \<open>The transport\<close>

lemma fetch_world: "snd (fetch e req w) = w\<lparr>calls := calls w @ [req]\<rparr>"
  by (simp add: fetch_def Let_def split: sum.splits)

lemma fetch_resolved:
  "transport e (calls w) req = Inr r \<Longrightarrow>
   fetch e req w = (Returned r, w\<lparr>calls := calls w @ [req]\<rparr>)"
  by (simp add: fetch_def Let_def)

lemma auth_fetch:
  "bigCommerceAuthUrl this \<noteq> [] \<Longrightarrow> auth e this p opts w = fetch e (auth_request this p opts) w"
  by (simp add: auth_def)

lemma api_fetch:
  "bigCommerceApiUrl this \<noteq> [] \<Longrightarrow> storeHash this \<noteq> [] \<Longrightarrow> accessToken this \<noteq> [] \<Longrightarrow>
   api e this p opts w = fetch e (api_request this p opts) w"
  by (simp add: api_def)

lemma sampleDataApi_fetch:
  "sampleDataApiUrl this \<noteq> [] \<Longrightarrow> storeHash this \<noteq> [] \<Longrightarrow> accessToken this \<noteq> [] \<Longrightarrow>
   sampleDataApi e this p opts w = fetch e (sampleDataApi_request this p opts) w"
  by (simp add: sampleDataApi_def)

lemma demo_client_fields:
  "bigCommerceApiUrl demo_client = ''https://api.example''"
  "bigCommerceAuthUrl demo_client = ''https://login.example''"
  "sampleDataApiUrl demo_client = ''https://sample.example''"
  "storeHash demo_client = ''abc123''"
  "accessToken demo_client = ''secret''"
  "userAgent demo_client = ''create-catalyst''"
  by (simp_all add: demo_client_def demo_config_def Https_constructor_def nullish_or_empty_def)

subsection \<open>Credentials\<close>

text \<open>
  C1. A call of \<open>api\<close>, \<open>sampleDataApi\<close> or \<open>auth\<close> on a client whose
  required credentials are incomplete (one of API URL, store hash, access token is
  empty for \<open>api\<close>; one of sample-data URL, store hash, access token for
  \<open>sampleDataApi\<close>; the auth URL for \<open>auth\<close>) throws the configuration error
  of that method and leaves the world as it was: no request has reached the transport,
  whatever the transport is.
\<close>

theorem config_error_before_fetch:
  "(bigCommerceApiUrl this = [] \<or> storeHash this = [] \<or> accessToken this = [] \<longrightarrow>
      api e this path opts w = (Thrown (Error
        ''bigCommerceApiUrl, storeHash, and accessToken are required to make API requests''), w))
   \<and> (sampleDataApiUrl this = [] \<or> storeHash this = [] \<or> accessToken this = [] \<longrightarrow>
      sampleDataApi e this path opts w = (Thrown (Error
        ''sampleDataApiUrl, storeHash, and accessToken are required to make API requests''), w))
   \<and> (bigCommerceAuthUrl this = [] \<longrightarrow>
      auth e this path opts w =
        (Thrown (Error ''bigCommerceAuthUrl is required to make API requests''), w))"
  by (simp add: api_def sampleDataApi_def auth_def)

theorem config_error_before_fetch_witness:
  "api (canned server_error) (demo_client\<lparr>accessToken := [], bigCommerceAuthUrl := []\<rparr>)
       ''/v2/store'' no_opts fresh
     = (Thrown (Error
        ''bigCommerceApiUrl, storeHash, and accessToken are required to make API requests''), fresh)
   \<and> sampleDataApi (canned server_error) (demo_client\<lparr>accessToken := [], bigCommerceAuthUrl := []\<rparr>)
       ''/v3/channels/catalyst'' no_opts fresh
     = (Thrown (Error
        ''sampleDataApiUrl, storeHash, and accessToken are required to make API requests''), fresh)
   \<and> auth (canned server_error) (demo_client\<lparr>accessToken := [], bigCommerceAuthUrl := []\<rparr>)
       ''/device/token'' no_opts fresh
     = (Thrown (Error ''bigCommerceAuthUrl is required to make API requests''), fresh)
   \<and> calls fresh = []"
  using config_error_before_fetch
    [of "demo_client\<lparr>accessToken := [], bigCommerceAuthUrl := []\<rparr>" "canned server_error"
        "''/v2/store''" no_opts fresh]
    config_error_before_fetch
    [of "demo_client\<lparr>accessToken := [], bigCommerceAuthUrl := []\<rparr>" "canned server_error"
        "''/v3/channels/catalyst''" no_opts fresh]
    config_error_before_fetch
    [of "demo_client\<lparr>accessToken := [], bigCommerceAuthUrl := []\<rparr>" "canned server_error"
        "''/device/token''" no_opts fresh]
  by (simp add: fresh_def)

text \<open>
  C9. The constructor stores a string in each of the five credential fields: the
  string given, or the empty string for a field left out. A configuration that gives
  the empty string for a field builds the same client as one that leaves the field out,
  so every method behaves the same on both; and a client built without a required
  credential, or with the empty string for it, throws in \<open>auth\<close>, \<open>api\<close> or
  \<open>sampleDataApi\<close> with the world unchanged, before any request.
\<close>

theorem constructor_defaults_to_empty:
  "bigCommerceApiUrl (Https_constructor ua c) =
      (case cfg_bigCommerceApiUrl c of None \<Rightarrow> [] | Some s \<Rightarrow> s)
   \<and> bigCommerceAuthUrl (Https_constructor ua c) =
      (case cfg_bigCommerceAuthUrl c of None \<Rightarrow> [] | Some s \<Rightarrow> s)
   \<and> sampleDataApiUrl (Https_constructor ua c) =
      (case cfg_sampleDataApiUrl c of None \<Rightarrow> [] | Some s \<Rightarrow> s)
   \<and> storeHash (Https_constructor ua c) = (case cfg_storeHash c of None \<Rightarrow> [] | Some s \<Rightarrow> s)
   \<and> accessToken (Https_constructor ua c) = (case cfg_accessToken c of None \<Rightarrow> [] | Some s \<Rightarrow> s)
   \<and> Https_constructor ua (c\<lparr>cfg_bigCommerceApiUrl := Some []\<rparr>) =
      Https_constructor ua (c\<lparr>cfg_bigCommerceApiUrl := None\<rparr>)
   \<and> Https_constructor ua (c\<lparr>cfg_bigCommerceAuthUrl := Some []\<rparr>) =
      Https_constructor ua (c\<lparr>cfg_bigCommerceAuthUrl := None\<rparr>)
   \<and> Https_constructor ua (c\<lparr>cfg_sampleDataApiUrl := Some []\<rparr>) =
      Https_constructor ua (c\<lparr>cfg_sampleDataApiUrl := None\<rparr>)
   \<and> Https_constructor ua (c\<lparr>cfg_storeHash := Some []\<rparr>) =
      Https_constructor ua (c\<lparr>cfg_storeHash := None\<rparr>)
   \<and> Https_constructor ua (c\<lparr>cfg_accessToken := Some []\<rparr>) =
      Https_constructor ua (c\<lparr>cfg_accessToken := None\<rparr>)
   \<and> ((cfg_bigCommerceAuthUrl c = None \<or> cfg_bigCommerceAuthUrl c = Some []) \<longrightarrow>
        auth e (Https_constructor ua c) path opts w =
          (Thrown (Error ''bigCommerceAuthUrl is required to make API requests''), w))
   \<and> ((cfg_bigCommerceApiUrl c = None \<or> cfg_bigCommerceApiUrl c = Some []
        \<or> cfg_storeHash c = None \<or> cfg_storeHash c = Some []
        \<or> cfg_accessToken c = None \<or> cfg_accessToken c = Some []) \<longrightarrow>
        api e (Https_constructor ua c) path opts w = (Thrown (Error
          ''bigCommerceApiUrl, storeHash, and accessToken are required to make API requests''), w))
   \<and> ((cfg_sampleDataApiUrl c = None \<or> cfg_sampleDataApiUrl c = Some []
        \<or> cfg_storeHash c = None \<or> cfg_storeHash c = Some []
        \<or> cfg_accessToken c = None \<or> cfg_accessToken c = Some []) \<longrightarrow>
        sampleDataApi e (Https_constructor ua c) path opts w = (Thrown (Error
          ''sampleDataApiUrl, storeHash, and accessToken are required to make API requests''), w))"
  by (auto simp: Https_constructor_def nullish_or_empty_def auth_def api_def sampleDataApi_def)

theorem constructor_defaults_to_empty_witness:
  "storeHash (Https_constructor ''create-catalyst'' (demo_config\<lparr>cfg_storeHash := None\<rparr>)) = []
   \<and> Https_constructor ''create-catalyst'' (demo_config\<lparr>cfg_storeHash := Some []\<rparr>) =
      Https_constructor ''create-catalyst'' (demo_config\<lparr>cfg_storeHash := None\<rparr>)
   \<and> api (canned server_error)
        (Https_constructor ''create-catalyst'' (demo_config\<lparr>cfg_storeHash := None\<rparr>))
        ''/v2/store'' no_opts fresh
      = (Thrown (Error
          ''bigCommerceApiUrl, storeHash, and accessToken are required to make API requests''), fresh)
   \<and> sampleDataApi (canned server_error)
        (Https_constructor ''create-catalyst'' (demo_config\<lparr>cfg_storeHash := None\<rparr>))
        ''/v3/channels/catalyst'' no_opts fresh
      = (Thrown (Error
          ''sampleDataApiUrl, storeHash, and accessToken are required to make API requests''), fresh)"
proof -
  let ?c = "demo_config\<lparr>cfg_storeHash := None\<rparr>"
  have none: "cfg_storeHash ?c = None"
    by simp
  have upd: "?c\<lparr>cfg_storeHash := Some []\<rparr> = demo_config\<lparr>cfg_storeHash := Some []\<rparr>"
    "?c\<lparr>cfg_storeHash := None\<rparr> = ?c"
    by simp_all
  note run1 = constructor_defaults_to_empty
    [of "''create-catalyst''" ?c "canned server_error" "''/v2/store''" no_opts fresh]
  note run2 = constructor_defaults_to_empty
    [of "''create-catalyst''" ?c "canned server_error" "''/v3/channels/catalyst''" no_opts fresh]
  have "storeHash (Https_constructor ''create-catalyst'' ?c) = []"
    using run1 none by simp
  moreover have "Https_constructor ''create-catalyst'' (demo_config\<lparr>cfg_storeHash := Some []\<rparr>) =
      Https_constructor ''create-catalyst'' ?c"
    using run1 unfolding upd by blast
  moreover have "api (canned server_error) (Https_constructor ''create-catalyst'' ?c)
        ''/v2/store'' no_opts fresh
      = (Thrown (Error
          ''bigCommerceApiUrl, storeHash, and accessToken are required to make API requests''), fresh)"
    using run1 none by blast
  moreover have "sampleDataApi (canned server_error) (Https_constructor ''create-catalyst'' ?c)
        ''/v3/channels/catalyst'' no_opts fresh
      = (Thrown (Error
          ''sampleDataApiUrl, storeHash, and accessToken are required to make API requests''), fresh)"
    using run2 none by blast
  ultimately show ?thesis
    by blast
qed

subsection \<open>Requests\<close>

text \<open>
  C8. With its credentials complete, \<open>api p\<close> issues exactly one request, to the
  API base URL followed by \<open>/stores/\<close>, the store hash and \<open>p\<close>;
  \<open>sampleDataApi p\<close> the same from the sample-data base URL; and \<open>auth p\<close>
  one request to the auth base URL followed by \<open>p\<close>.
\<close>

theorem request_url:
  "(bigCommerceApiUrl this \<noteq> [] \<and> storeHash this \<noteq> [] \<and> accessToken this \<noteq> [] \<longrightarrow>
      map url (calls (snd (api e this p opts w))) =
        map url (calls w) @ [bigCommerceApiUrl this @ ''/stores/'' @ storeHash this @ p])
   \<and> (sampleDataApiUrl this \<noteq> [] \<and> storeHash this \<noteq> [] \<and> accessToken this \<noteq> [] \<longrightarrow>
      map url (calls (snd (sampleDataApi e this p opts w))) =
        map url (calls w) @ [sampleDataApiUrl this @ ''/stores/'' @ storeHash this @ p])
   \<and> (bigCommerceAuthUrl this \<noteq> [] \<longrightarrow>
      map url (calls (snd (auth e this p opts w))) =
        map url (calls w) @ [bigCommerceAuthUrl this @ p])"
  by (simp add: api_def sampleDataApi_def auth_def fetch_world api_request_def
      sampleDataApi_request_def auth_request_def)

theorem request_url_witness:
  "map url (calls (snd (api (canned server_error) demo_client ''/v2/store'' no_opts fresh))) =
      [''https://api.example/stores/abc123/v2/store'']
   \<and> map url (calls (snd (sampleDataApi (canned server_error) demo_client
        ''/v3/channels/catalyst'' no_opts fresh))) =
      [''https://sample.example/stores/abc123/v3/channels/catalyst'']
   \<and> map url (calls (snd (auth (canned server_error) demo_client ''/device/token'' no_opts fresh))) =
      [''https://login.example/device/token'']"
  using request_url [of demo_client "canned server_error" "''/v2/store''" no_opts fresh]
    request_url [of demo_client "canned server_error" "''/v3/channels/catalyst''" no_opts fresh]
    request_url [of demo_client "canned server_error" "''/device/token''" no_opts fresh]
  by (simp add: demo_client_fields fresh_def)

subsection \<open>Headers\<close>

lemma fixed_names_differ:
  "lower ''Accept'' \<noteq> lower ''Content-Type''" "lower ''Accept'' \<noteq> lower ''User-Agent''"
  "lower ''Accept'' \<noteq> lower ''X-Auth-Token''" "lower ''Content-Type'' \<noteq> lower ''User-Agent''"
  "lower ''Content-Type'' \<noteq> lower ''X-Auth-Token''" "lower ''X-Auth-Token'' \<noteq> lower ''User-Agent''"
  by (simp_all add: lower_def lower_char_def)

lemma collides_iff:
  "collides name hs \<longleftrightarrow> (\<exists>k \<in> fst ` set hs. lower k = lower name \<and> k \<noteq> name)"
  unfolding collides_def list_ex_iff by force

lemma keys_set_prop: "fst ` set (set_prop k v ps) = insert k (fst ` set ps)"
  by (simp add: dom_map_of_conv_image_fst [symmetric] map_of_set_prop)

lemma keys_spread: "fst ` set (spread src obj) = fst ` set src \<union> fst ` set obj"
  unfolding spread_def
  by (induction src arbitrary: obj) (simp_all add: keys_set_prop split: prod.splits)

lemma distinct_set_prop: "distinct (map fst ps) \<Longrightarrow> distinct (map fst (set_prop k v ps))"
  by (induction k v ps rule: set_prop.induct) (auto simp: keys_set_prop)

lemma distinct_spread: "distinct (map fst obj) \<Longrightarrow> distinct (map fst (spread src obj))"
  unfolding spread_def
  by (induction src arbitrary: obj) (simp_all add: distinct_set_prop split: prod.splits)

lemma header_values_set_other:
  "lower k \<noteq> lower name \<Longrightarrow> header_values (set_prop k v ps) name = header_values ps name"
  by (induction ps) (auto simp: header_values_def)

lemma header_values_none:
  "\<forall>k \<in> fst ` set ps. lower k \<noteq> lower name \<Longrightarrow> header_values ps name = []"
  by (induction ps) (auto simp: header_values_def)

lemma header_values_set_same:
  assumes "distinct (map fst ps)"
    and "\<forall>k \<in> fst ` set ps. lower k = lower name \<longrightarrow> k = name"
  shows "header_values (set_prop name v ps) name = [v]"
  using assms
proof (induction ps)
  case Nil
  then show ?case by (simp add: header_values_def)
next
  case (Cons p ps)
  obtain k' v' where p: "p = (k', v')" by (cases p)
  show ?case
  proof (cases "k' = name")
    case True
    with Cons.prems p have "\<forall>k \<in> fst ` set ps. lower k \<noteq> lower name"
      by force
    then have "header_values ps name = []"
      by (rule header_values_none)
    with True p show ?thesis
      by (simp add: header_values_def)
  next
    case False
    with Cons.prems p have "lower k' \<noteq> lower name"
      by auto
    moreover have "header_values (set_prop name v ps) name = [v]"
      using Cons.IH Cons.prems by auto
    ultimately show ?thesis
      using False p by (simp add: header_values_def)
  qed
qed


lemma collides_set_prop:
  "collides name (set_prop k v ps) \<longleftrightarrow> (lower k = lower name \<and> k \<noteq> name) \<or> collides name ps"
  by (simp add: collides_iff keys_set_prop)

lemma collides_spread_empty: "collides name (spread hs []) \<longleftrightarrow> collides name hs"
  by (simp add: collides_iff keys_spread)

lemma distinct_spread_empty: "distinct (map fst (spread hs []))"
  by (rule distinct_spread) simp

lemma header_values_fixed:
  "distinct (map fst ps) \<Longrightarrow> \<not> collides name ps \<Longrightarrow>
   header_values (set_prop name v ps) name = [v]"
  by (rule header_values_set_same) (auto simp: collides_iff)

lemmas header_simps = header_values_set_other header_values_fixed distinct_set_prop
  distinct_spread_empty collides_set_prop collides_spread_empty
  fixed_names_differ fixed_names_differ [symmetric]

lemma auth_header_values:
  "\<not> collides ''Accept'' (opts_headers opts) \<Longrightarrow>
     header_values (req_headers (auth_request this p opts)) ''Accept'' = [''application/json'']"
  "\<not> collides ''Content-Type'' (opts_headers opts) \<Longrightarrow>
     header_values (req_headers (auth_request this p opts)) ''Content-Type'' = [''application/json'']"
  "\<not> collides ''User-Agent'' (opts_headers opts) \<Longrightarrow>
     header_values (req_headers (auth_request this p opts)) ''User-Agent'' = [userAgent this]"
  by (simp_all add: auth_request_def header_simps)

lemma api_header_values:
  "\<not> collides ''Accept'' (opts_headers opts) \<Longrightarrow>
     header_values (req_headers (api_request this p opts)) ''Accept'' = [''application/json'']"
  "\<not> collides ''X-Auth-Token'' (opts_headers opts) \<Longrightarrow>
     header_values (req_headers (api_request this p opts)) ''X-Auth-Token'' = [accessToken this]"
  "\<not> collides ''User-Agent'' (opts_headers opts) \<Longrightarrow>
     header_values (req_headers (api_request this p opts)) ''User-Agent'' = [userAgent this]"
  by (simp_all add: api_request_def header_simps)

lemma sampleDataApi_header_values:
  "\<not> collides ''Accept'' (opts_headers opts) \<Longrightarrow>
     header_values (req_headers (sampleDataApi_request this p opts)) ''Accept'' =
       [''application/json'']"
  "\<not> collides ''Content-Type'' (opts_headers opts) \<Longrightarrow>
     header_values (req_headers (sampleDataApi_request this p opts)) ''Content-Type'' =
       [''application/json'']"
  "\<not> collides ''X-Auth-Token'' (opts_headers opts) \<Longrightarrow>
     header_values (req_headers (sampleDataApi_request this p opts)) ''X-Auth-Token'' =
       [accessToken this]"
  "\<not> collides ''User-Agent'' (opts_headers opts) \<Longrightarrow>
     header_values (req_headers (sampleDataApi_request this p opts)) ''User-Agent'' =
       [userAgent this]"
  by (simp_all add: sampleDataApi_request_def header_simps)


text \<open>
  C10, as the code has it. Whatever headers the caller passes, the options object handed
  to the transport has the properties \<open>Accept: application/json\<close> and
  \<open>User-Agent\<close> with the client's user agent, \<open>X-Auth-Token\<close> with the
  access token for \<open>api\<close> and \<open>sampleDataApi\<close>, and
  \<open>Content-Type: application/json\<close> for \<open>auth\<close> and \<open>sampleDataApi\<close>:
  the caller's headers are spread first, so a caller's property of exactly one of these
  names is overwritten. When no header of the caller is one of these names in another
  spelling (the same letters in another case), the fixed value is the only value the
  request carries under that name, names compared without regard to case. The request
  so built is the one handed to the transport.
\<close>

theorem fixed_headers_unless_respelled:
  "get_prop (req_headers (auth_request this p opts)) ''Accept'' = Some ''application/json''
   \<and> get_prop (req_headers (auth_request this p opts)) ''Content-Type'' = Some ''application/json''
   \<and> get_prop (req_headers (auth_request this p opts)) ''User-Agent'' = Some (userAgent this)
   \<and> get_prop (req_headers (api_request this p opts)) ''Accept'' = Some ''application/json''
   \<and> get_prop (req_headers (api_request this p opts)) ''X-Auth-Token'' = Some (accessToken this)
   \<and> get_prop (req_headers (api_request this p opts)) ''User-Agent'' = Some (userAgent this)
   \<and> get_prop (req_headers (sampleDataApi_request this p opts)) ''Accept'' = Some ''application/json''
   \<and> get_prop (req_headers (sampleDataApi_request this p opts)) ''Content-Type'' =
        Some ''application/json''
   \<and> get_prop (req_headers (sampleDataApi_request this p opts)) ''X-Auth-Token'' =
        Some (accessToken this)
   \<and> get_prop (req_headers (sampleDataApi_request this p opts)) ''User-Agent'' =
        Some (userAgent this)
   \<and> (\<not> collides ''Accept'' (opts_headers opts) \<longrightarrow>
        header_values (req_headers (auth_request this p opts)) ''Accept'' = [''application/json'']
        \<and> header_values (req_headers (api_request this p opts)) ''Accept'' = [''application/json'']
        \<and> header_values (req_headers (sampleDataApi_request this p opts)) ''Accept'' =
            [''application/json''])
   \<and> (\<not> collides ''User-Agent'' (opts_headers opts) \<longrightarrow>
        header_values (req_headers (auth_request this p opts)) ''User-Agent'' = [userAgent this]
        \<and> header_values (req_headers (api_request this p opts)) ''User-Agent'' = [userAgent this]
        \<and> header_values (req_headers (sampleDataApi_request this p opts)) ''User-Agent'' =
            [userAgent this])
   \<and> (\<not> collides ''X-Auth-Token'' (opts_headers opts) \<longrightarrow>
        header_values (req_headers (api_request this p opts)) ''X-Auth-Token'' = [accessToken this]
        \<and> header_values (req_headers (sampleDataApi_request this p opts)) ''X-Auth-Token'' =
            [accessToken this])
   \<and> (\<not> collides ''Content-Type'' (opts_headers opts) \<longrightarrow>
        header_values (req_headers (auth_request this p opts)) ''Content-Type'' =
            [''application/json'']
        \<and> header_values (req_headers (sampleDataApi_request this p opts)) ''Content-Type'' =
            [''application/json''])
   \<and> (bigCommerceAuthUrl this \<noteq> [] \<longrightarrow>
        calls (snd (auth e this p opts w)) = calls w @ [auth_request this p opts])
   \<and> (bigCommerceApiUrl this \<noteq> [] \<and> storeHash this \<noteq> [] \<and> accessToken this \<noteq> [] \<longrightarrow>
        calls (snd (api e this p opts w)) = calls w @ [api_request this p opts])
   \<and> (sampleDataApiUrl this \<noteq> [] \<and> storeHash this \<noteq> [] \<and> accessToken this \<noteq> [] \<longrightarrow>
        calls (snd (sampleDataApi e this p opts w)) = calls w @ [sampleDataApi_request this p opts])"
proof -
  have exact: "get_prop (req_headers (auth_request this p opts)) ''Accept'' = Some ''application/json''"
    "get_prop (req_headers (auth_request this p opts)) ''Content-Type'' = Some ''application/json''"
    "get_prop (req_headers (auth_request this p opts)) ''User-Agent'' = Some (userAgent this)"
    "get_prop (req_headers (api_request this p opts)) ''Accept'' = Some ''application/json''"
    "get_prop (req_headers (api_request this p opts)) ''X-Auth-Token'' = Some (accessToken this)"
    "get_prop (req_headers (api_request this p opts)) ''User-Agent'' = Some (userAgent this)"
    "get_prop (req_headers (sampleDataApi_request this p opts)) ''Accept'' = Some ''application/json''"
    "get_prop (req_headers (sampleDataApi_request this p opts)) ''Content-Type'' =
        Some ''application/json''"
    "get_prop (req_headers (sampleDataApi_request this p opts)) ''X-Auth-Token'' =
        Some (accessToken this)"
    "get_prop (req_headers (sampleDataApi_request this p opts)) ''User-Agent'' =
        Some (userAgent this)"
    by (simp_all add: auth_request_def api_request_def sampleDataApi_request_def get_set_prop)
  have issued: "bigCommerceAuthUrl this \<noteq> [] \<longrightarrow>
        calls (snd (auth e this p opts w)) = calls w @ [auth_request this p opts]"
    "bigCommerceApiUrl this \<noteq> [] \<and> storeHash this \<noteq> [] \<and> accessToken this \<noteq> [] \<longrightarrow>
        calls (snd (api e this p opts w)) = calls w @ [api_request this p opts]"
    "sampleDataApiUrl this \<noteq> [] \<and> storeHash this \<noteq> [] \<and> accessToken this \<noteq> [] \<longrightarrow>
        calls (snd (sampleDataApi e this p opts w)) = calls w @ [sampleDataApi_request this p opts]"
    by (simp_all add: auth_def api_def sampleDataApi_def fetch_world)
  from exact issued auth_header_values [of opts this p] api_header_values [of opts this p]
    sampleDataApi_header_values [of opts this p]
  show ?thesis
    by blast
qed

theorem fixed_headers_unless_respelled_witness:
  "calls (snd (api (canned server_error) demo_client ''/v2/store'' hostile_opts fresh)) =
     [api_request demo_client ''/v2/store'' hostile_opts]
   \<and> req_headers (api_request demo_client ''/v2/store'' hostile_opts) =
     [(''Accept'', ''application/json''), (''User-Agent'', ''create-catalyst''),
      (''X-Auth-Token'', ''secret''), (''Content-Type'', ''text/plain''), (''X-Trace'', ''1'')]
   \<and> get_prop (req_headers (api_request demo_client ''/v2/store'' hostile_opts)) ''Accept'' =
     Some ''application/json''
   \<and> header_values (req_headers (api_request demo_client ''/v2/store'' hostile_opts)) ''Accept'' =
     [''application/json'']
   \<and> header_values (req_headers (api_request demo_client ''/v2/store'' hostile_opts))
        ''X-Auth-Token'' = [''secret'']
   \<and> header_values (req_headers (api_request demo_client ''/v2/store'' hostile_opts))
        ''User-Agent'' = [''create-catalyst'']"
proof -
  note run = fixed_headers_unless_respelled
    [of demo_client "''/v2/store''" hostile_opts "canned server_error" fresh]
  have spelled: "\<not> collides ''Accept'' (opts_headers hostile_opts)"
    "\<not> collides ''X-Auth-Token'' (opts_headers hostile_opts)"
    "\<not> collides ''User-Agent'' (opts_headers hostile_opts)"
    by (simp_all add: collides_def hostile_opts_def opts_headers_def lower_def lower_char_def)
  have "calls (snd (api (canned server_error) demo_client ''/v2/store'' hostile_opts fresh)) =
     [api_request demo_client ''/v2/store'' hostile_opts]"
    using run by (simp add: demo_client_fields fresh_def)
  moreover have "req_headers (api_request demo_client ''/v2/store'' hostile_opts) =
     [(''Accept'', ''application/json''), (''User-Agent'', ''create-catalyst''),
      (''X-Auth-Token'', ''secret''), (''Content-Type'', ''text/plain''), (''X-Trace'', ''1'')]"
    by (simp add: api_request_def hostile_opts_def opts_headers_def spread_def demo_client_fields)
  moreover have "get_prop (req_headers (api_request demo_client ''/v2/store'' hostile_opts)) ''Accept'' =
     Some ''application/json''"
    using run by blast
  moreover have "header_values (req_headers (api_request demo_client ''/v2/store'' hostile_opts)) ''Accept'' =
     [''application/json'']"
    using run spelled(1) by blast
  moreover have "header_values (req_headers (api_request demo_client ''/v2/store'' hostile_opts))
        ''X-Auth-Token'' = [accessToken demo_client]"
    using run spelled(2) by blast
  moreover have "header_values (req_headers (api_request demo_client ''/v2/store'' hostile_opts))
        ''User-Agent'' = [userAgent demo_client]"
    using run spelled(3) by blast
  ultimately show ?thesis
    by (simp add: demo_client_fields)
qed

text \<open>
  C10 as the spec states it does not hold of the code: the spec has the fixed headers in
  the final request for every set of caller headers, never overridden. A caller who
  passes \<open>accept\<close> and \<open>x-auth-token\<close> in lower case adds two properties that
  the fixed \<open>Accept\<close> and \<open>X-Auth-Token\<close> do not overwrite, and the request
  carries the caller's value before the fixed one under both names.
\<close>

theorem respelled_header_counterexample:
  "calls (snd (api (canned server_error) demo_client ''/v2/store'' lowercase_opts fresh)) =
     [api_request demo_client ''/v2/store'' lowercase_opts]
   \<and> req_headers (api_request demo_client ''/v2/store'' lowercase_opts) =
     [(''accept'', ''text/html''), (''x-auth-token'', ''forged''),
      (''Accept'', ''application/json''), (''X-Auth-Token'', ''secret''),
      (''User-Agent'', ''create-catalyst'')]
   \<and> header_values (req_headers (api_request demo_client ''/v2/store'' lowercase_opts)) ''Accept'' =
     [''text/html'', ''application/json'']
   \<and> header_values (req_headers (api_request demo_client ''/v2/store'' lowercase_opts))
        ''X-Auth-Token'' = [''forged'', ''secret'']"
  by (simp add: api_def api_request_def fetch_def canned_def demo_client_fields fresh_def
      lowercase_opts_def opts_headers_def rest_method_def spread_def header_values_def lower_def
      lower_char_def)

subsection \<open>Validation\<close>

lemma validate_string:
  "validate u p (ZString []) v = Inr y \<longleftrightarrow> (\<exists>s. v = Some (JStr s) \<and> y = JStr s)"
  by (auto split: option.splits json.splits)

lemma validate_string_min1:
  "validate u p (ZString [Min 1]) v = Inr y \<longleftrightarrow>
     (\<exists>s. v = Some (JStr s) \<and> s \<noteq> [] \<and> y = JStr s)"
  by (auto simp: Suc_le_eq split: option.splits json.splits)

lemma validate_string_url:
  "validate u p (ZString [IsUrl]) v = Inr y \<longleftrightarrow> (\<exists>s. v = Some (JStr s) \<and> u s \<and> y = JStr s)"
  by (auto split: option.splits json.splits)

lemma validate_number:
  "validate u p ZNumber v = Inr y \<longleftrightarrow> (\<exists>n. v = Some (JNum n) \<and> y = JNum n)"
  by (auto split: option.splits json.splits)

lemma validate_boolean:
  "validate u p ZBoolean v = Inr y \<longleftrightarrow> (\<exists>b. v = Some (JBool b) \<and> y = JBool b)"
  by (auto split: option.splits json.splits)

lemma validate_object:
  "validate u p (ZObject shape) v = Inr y \<longleftrightarrow>
     (\<exists>ps qs. v = Some (JObj ps) \<and> validate_shape u p shape ps = Inr qs \<and> y = JObj qs)"
  by (auto split: option.splits json.splits sum.splits)

lemma validate_shape_Cons:
  "validate_shape u p ((k, s) # shape) ps = Inr qs \<longleftrightarrow>
     (\<exists>y ys. validate u (p @ [k]) s (get_prop ps k) = Inr y
        \<and> validate_shape u p shape ps = Inr ys \<and> qs = (k, y) # ys)"
  by (auto split: sum.splits)

lemma validate_shape_Nil: "validate_shape u p [] ps = Inr qs \<longleftrightarrow> qs = []"
  by auto

lemmas validate_iffs = validate_string validate_string_min1 validate_string_url validate_number
  validate_boolean validate_object validate_shape_Cons validate_shape_Nil

lemma validate_fails_with_ValidationError:
  "validate u p s (v :: 'n json option) = Inl err \<Longrightarrow> \<exists>q ex rc. err = ValidationError q ex rc"
  "validate_shape u p sh (ps :: (string \<times> 'n json) list) = Inl err \<Longrightarrow>
     \<exists>q ex rc. err = ValidationError q ex rc"
  "validate_items u p i s (xs :: 'n json list) = Inl err \<Longrightarrow>
     \<exists>q ex rc. err = ValidationError q ex rc"
  by (induction u p s v and u p sh ps and u p i s xs
        rule: validate_validate_shape_validate_items.induct)
     (auto split: option.splits json.splits sum.splits list.splits)

lemma parse_Returned:
  "parse e raw shape = Returned v \<longleftrightarrow> validate (isUrl e) [] shape (Some raw) = Inr v"
  by (simp add: parse_def split: sum.splits)

lemma parse_cases:
  "(\<exists>v. parse e raw shape = Returned v)
   \<or> (\<exists>q ex rc. parse e raw shape = Thrown (ValidationError q ex rc))"
  using validate_fails_with_ValidationError(1) [of "isUrl e" "[]" shape "Some raw"]
  by (cases "validate (isUrl e) [] shape (Some raw)") (auto simp: parse_def)

lemma parse_DeviceCodeSchema:
  "parse e raw DeviceCodeSchema = Returned v \<longleftrightarrow>
     (\<exists>ps dc uc vu ex iv. raw = JObj ps
        \<and> get_prop ps ''device_code'' = Some (JStr dc)
        \<and> get_prop ps ''user_code'' = Some (JStr uc)
        \<and> get_prop ps ''verification_uri'' = Some (JStr vu)
        \<and> get_prop ps ''expires_in'' = Some (JNum ex)
        \<and> get_prop ps ''interval'' = Some (JNum iv)
        \<and> v = JObj [(''device_code'', JStr dc), (''user_code'', JStr uc),
             (''verification_uri'', JStr vu), (''expires_in'', JNum ex), (''interval'', JNum iv)])"
  unfolding parse_Returned DeviceCodeSchema_def
  by (simp only: validate_iffs) auto

lemma parse_DeviceCodeSuccessSchema:
  "parse e raw DeviceCodeSuccessSchema = Returned v \<longleftrightarrow>
     (\<exists>ps a s c u. raw = JObj ps
        \<and> get_prop ps ''access_token'' = Some (JStr a)
        \<and> get_prop ps ''store_hash'' = Some (JStr s)
        \<and> get_prop ps ''context'' = Some (JStr c)
        \<and> get_prop ps ''api_uri'' = Some (JStr u) \<and> isUrl e u
        \<and> v = JObj [(''access_token'', JStr a), (''store_hash'', JStr s),
             (''context'', JStr c), (''api_uri'', JStr u)])"
  unfolding parse_Returned DeviceCodeSuccessSchema_def
  by (simp only: validate_iffs) auto

lemma parse_SampleDataChannelCreateSchema:
  "parse e raw SampleDataChannelCreateSchema = Returned v \<longleftrightarrow>
     (\<exists>ps d i n t. raw = JObj ps
        \<and> get_prop ps ''data'' = Some (JObj d)
        \<and> get_prop d ''id'' = Some (JNum i)
        \<and> get_prop d ''name'' = Some (JStr n) \<and> n \<noteq> []
        \<and> get_prop d ''storefront_api_token'' = Some (JStr t)
        \<and> v = JObj [(''data'', JObj [(''id'', JNum i), (''name'', JStr n),
             (''storefront_api_token'', JStr t)])])"
  unfolding parse_Returned SampleDataChannelCreateSchema_def
  by (simp only: validate_iffs) auto

subsection \<open>The device-code grant\<close>

lemma getDeviceCode_resolved:
  assumes "bigCommerceAuthUrl this \<noteq> []"
    and "transport e (calls w)
           (auth_request this ''/device/token''
              \<lparr> init_headers = None, init_method = None,
                init_body = Some (JSON_stringify (JObj
                  [(''scopes'', JStr (join '' '' device_scopes)),
                   (''client_id'', JStr DEVICE_OAUTH_CLIENT_ID)])) \<rparr>) = Inr r"
  shows "getDeviceCode e this w =
     (if \<not> ok r
      then exit_with_error (nl @ ''POST /device/token'' @ failed_with r)
        (w\<lparr>calls := calls w @ [auth_request this ''/device/token''
              \<lparr> init_headers = None, init_method = None,
                init_body = Some (JSON_stringify (JObj
                  [(''scopes'', JStr (join '' '' device_scopes)),
                   (''client_id'', JStr DEVICE_OAUTH_CLIENT_ID)])) \<rparr>]\<rparr>)
      else (parse_response e r DeviceCodeSchema,
        w\<lparr>calls := calls w @ [auth_request this ''/device/token''
              \<lparr> init_headers = None, init_method = None,
                init_body = Some (JSON_stringify (JObj
                  [(''scopes'', JStr (join '' '' device_scopes)),
                   (''client_id'', JStr DEVICE_OAUTH_CLIENT_ID)])) \<rparr>]\<rparr>))"
  using assms by (simp add: getDeviceCode_def auth_fetch fetch_resolved)

lemma device_code_request:
  "auth_request this ''/device/token''
     \<lparr> init_headers = None, init_method = None,
       init_body = Some (JSON_stringify (JObj
         [(''scopes'', JStr (join '' '' device_scopes)),
          (''client_id'', JStr DEVICE_OAUTH_CLIENT_ID)])) \<rparr>
   = \<lparr> url = bigCommerceAuthUrl this @ ''/device/token'',
       req_method = Some ''POST'',
       req_headers = [(''Accept'', ''application/json''), (''Content-Type'', ''application/json''),
         (''User-Agent'', userAgent this)],
       req_body = Some (JSON_stringify (JObj
         [(''scopes'', JStr ''store_channel_settings store_sites store_storefront_api store_v2_content store_v2_information store_v2_products store_cart''),
          (''client_id'', JStr ''acse0vvawm9r1n0evag4b8e1ea1fo90'')])) \<rparr>"
  by (simp add: auth_request_def rest_method_def opts_headers_def spread_def device_scopes_def
      DEVICE_OAUTH_CLIENT_ID_def)

lemma getDeviceCode_calls:
  "bigCommerceAuthUrl this \<noteq> [] \<Longrightarrow>
   calls (snd (getDeviceCode e this w)) = calls w @
     [auth_request this ''/device/token''
     \<lparr> init_headers = None, init_method = None,
       init_body = Some (JSON_stringify (JObj
         [(''scopes'', JStr (join '' '' device_scopes)),
          (''client_id'', JStr DEVICE_OAUTH_CLIENT_ID)])) \<rparr>]"
  by (simp add: getDeviceCode_def auth_fetch fetch_def Let_def exit_with_error_def split: sum.splits)

text \<open>
  C7. On a client with an auth URL, \<open>getDeviceCode\<close> issues exactly one request: a
  POST to the auth URL followed by \<open>/device/token\<close>, whose body is the JSON text of
  \<open>scopes\<close>, the seven fixed scopes joined by single spaces, and \<open>client_id\<close>,
  the fixed client identifier. On a 2xx response with a JSON body it returns a value
  exactly when the body is an object with string fields \<open>device_code\<close>,
  \<open>user_code\<close>, \<open>verification_uri\<close> and number fields \<open>expires_in\<close>,
  \<open>interval\<close>, and the value returned is the object of those five fields with the
  values of the body. On a response that is not 2xx it writes
  \<open>POST /device/token failed: status statusText\<close> to the error console and ends the
  process with exit code 1.
\<close>

theorem getDeviceCode_contract:
  fixes e :: "'n env" and this :: Https and req :: "'n request"
  defines "req \<equiv>
     \<lparr> url = bigCommerceAuthUrl this @ ''/device/token'',
       req_method = Some ''POST'',
       req_headers = [(''Accept'', ''application/json''), (''Content-Type'', ''application/json''),
         (''User-Agent'', userAgent this)],
       req_body = Some (JSON_stringify (JObj
         [(''scopes'', JStr ''store_channel_settings store_sites store_storefront_api store_v2_content store_v2_information store_v2_products store_cart''),
          (''client_id'', JStr ''acse0vvawm9r1n0evag4b8e1ea1fo90'')])) \<rparr>"
  assumes cred: "bigCommerceAuthUrl this \<noteq> []"
  shows "calls (snd (getDeviceCode e this w)) = calls w @ [req]
    \<and> (transport e (calls w) req = Inr r \<and> ok r \<and> json_body r = Some raw \<longrightarrow>
         snd (getDeviceCode e this w) = w\<lparr>calls := calls w @ [req]\<rparr>
         \<and> (fst (getDeviceCode e this w) = Returned v \<longleftrightarrow>
             (\<exists>ps dc uc vu ex iv. raw = JObj ps
                \<and> get_prop ps ''device_code'' = Some (JStr dc)
                \<and> get_prop ps ''user_code'' = Some (JStr uc)
                \<and> get_prop ps ''verification_uri'' = Some (JStr vu)
                \<and> get_prop ps ''expires_in'' = Some (JNum ex)
                \<and> get_prop ps ''interval'' = Some (JNum iv)
                \<and> v = JObj [(''device_code'', JStr dc), (''user_code'', JStr uc),
                     (''verification_uri'', JStr vu), (''expires_in'', JNum ex),
                     (''interval'', JNum iv)])))
    \<and> (transport e (calls w) req = Inr r \<and> \<not> ok r \<longrightarrow>
         getDeviceCode e this w =
           (Exited 1, w\<lparr>calls := calls w @ [req],
              console := console w @ [ConsoleError (Red
                (nl @ ''POST /device/token failed: '' @ show_nat (status r) @ '' ''
                   @ statusText r @ nl))]\<rparr>))"
proof -
  have req: "req = auth_request this ''/device/token''
     \<lparr> init_headers = None, init_method = None,
       init_body = Some (JSON_stringify (JObj
         [(''scopes'', JStr (join '' '' device_scopes)),
          (''client_id'', JStr DEVICE_OAUTH_CLIENT_ID)])) \<rparr>"
    unfolding req_def device_code_request ..
  have one: "calls (snd (getDeviceCode e this w)) = calls w @ [req]"
    unfolding req using cred by (rule getDeviceCode_calls)
  have good: "snd (getDeviceCode e this w) = w\<lparr>calls := calls w @ [req]\<rparr>
         \<and> (fst (getDeviceCode e this w) = Returned v \<longleftrightarrow>
             (\<exists>ps dc uc vu ex iv. raw = JObj ps
                \<and> get_prop ps ''device_code'' = Some (JStr dc)
                \<and> get_prop ps ''user_code'' = Some (JStr uc)
                \<and> get_prop ps ''verification_uri'' = Some (JStr vu)
                \<and> get_prop ps ''expires_in'' = Some (JNum ex)
                \<and> get_prop ps ''interval'' = Some (JNum iv)
                \<and> v = JObj [(''device_code'', JStr dc), (''user_code'', JStr uc),
                     (''verification_uri'', JStr vu), (''expires_in'', JNum ex),
                     (''interval'', JNum iv)]))"
    if "transport e (calls w) req = Inr r" "ok r" "json_body r = Some raw"
    using that getDeviceCode_resolved [OF cred, of e w r]
    unfolding req [symmetric]
    by (simp add: parse_response_def response_json_def parse_DeviceCodeSchema)
  have bad: "getDeviceCode e this w =
           (Exited 1, w\<lparr>calls := calls w @ [req],
              console := console w @ [ConsoleError (Red
                (nl @ ''POST /device/token failed: '' @ show_nat (status r) @ '' ''
                   @ statusText r @ nl))]\<rparr>)"
    if "transport e (calls w) req = Inr r" "\<not> ok r"
    using that getDeviceCode_resolved [OF cred, of e w r]
    unfolding req [symmetric]
    by (simp add: exit_with_error_def failed_with_def)
  from one good bad show ?thesis
    by blast
qed

theorem getDeviceCode_contract_witness:
  "fst (getDeviceCode (canned (success device_payload)) demo_client fresh) = Returned device_payload
   \<and> calls (snd (getDeviceCode (canned (success device_payload)) demo_client fresh)) =
     [\<lparr> url = ''https://login.example/device/token'',
        req_method = Some ''POST'',
        req_headers = [(''Accept'', ''application/json''), (''Content-Type'', ''application/json''),
          (''User-Agent'', ''create-catalyst'')],
        req_body = Some (JSON_stringify (JObj
          [(''scopes'', JStr ''store_channel_settings store_sites store_storefront_api store_v2_content store_v2_information store_v2_products store_cart''),
           (''client_id'', JStr ''acse0vvawm9r1n0evag4b8e1ea1fo90'')])) \<rparr>]
   \<and> fst (getDeviceCode (canned server_error) demo_client fresh) = Exited 1
   \<and> console (snd (getDeviceCode (canned server_error) demo_client fresh)) =
     [ConsoleError (Red ''\<newline>POST /device/token failed: 500 Internal Server Error\<newline>'')]"
proof -
  have cred: "bigCommerceAuthUrl demo_client \<noteq> []"
    by (simp add: demo_client_fields)
  note good = getDeviceCode_contract [OF cred, where e = "canned (success device_payload)"
    and w = fresh and r = "success device_payload" and raw = device_payload and v = device_payload]
  note bad = getDeviceCode_contract [OF cred, where e = "canned server_error"
    and w = fresh and r = server_error]
  have "fst (getDeviceCode (canned (success device_payload)) demo_client fresh) = Returned device_payload"
    using good by (simp add: canned_def success_def ok_def device_payload_def get_prop_def)
  moreover have "calls (snd (getDeviceCode (canned (success device_payload)) demo_client fresh)) =
     [\<lparr> url = ''https://login.example/device/token'',
        req_method = Some ''POST'',
        req_headers = [(''Accept'', ''application/json''), (''Content-Type'', ''application/json''),
          (''User-Agent'', ''create-catalyst'')],
        req_body = Some (JSON_stringify (JObj
          [(''scopes'', JStr ''store_channel_settings store_sites store_storefront_api store_v2_content store_v2_information store_v2_products store_cart''),
           (''client_id'', JStr ''acse0vvawm9r1n0evag4b8e1ea1fo90'')])) \<rparr>]"
    using good by (simp add: demo_client_fields fresh_def)
  moreover have "getDeviceCode (canned server_error) demo_client fresh =
     (Exited 1, fresh\<lparr>calls := calls fresh @ [\<lparr> url = bigCommerceAuthUrl demo_client @ ''/device/token'',
        req_method = Some ''POST'',
        req_headers = [(''Accept'', ''application/json''), (''Content-Type'', ''application/json''),
          (''User-Agent'', userAgent demo_client)],
        req_body = Some (JSON_stringify (JObj
          [(''scopes'', JStr ''store_channel_settings store_sites store_storefront_api store_v2_content store_v2_information store_v2_products store_cart''),
           (''client_id'', JStr ''acse0vvawm9r1n0evag4b8e1ea1fo90'')])) \<rparr>],
       console := console fresh @ [ConsoleError (Red
                (nl @ ''POST /device/token failed: '' @ show_nat (status server_error) @ '' ''
                   @ statusText server_error @ nl))]\<rparr>)"
    using bad by (simp add: canned_def server_error_def ok_def)
  ultimately show ?thesis
    by (simp add: fresh_def server_error_def nl_def show_nat.simps)
qed

lemma checkDeviceCode_resolved:
  assumes "bigCommerceAuthUrl this \<noteq> []"
    and "transport e (calls w)
           (auth_request this ''/device/token''
              \<lparr> init_headers = None, init_method = None,
                init_body = Some (JSON_stringify (JObj
                  [(''device_code'', JStr code),
                   (''client_id'', JStr DEVICE_OAUTH_CLIENT_ID)])) \<rparr>) = Inr r"
  shows "checkDeviceCode e this code w =
     (if status r \<noteq> 200
      then (Thrown (Error ''Device code not yet verified''),
        w\<lparr>calls := calls w @ [auth_request this ''/device/token''
              \<lparr> init_headers = None, init_method = None,
                init_body = Some (JSON_stringify (JObj
                  [(''device_code'', JStr code),
                   (''client_id'', JStr DEVICE_OAUTH_CLIENT_ID)])) \<rparr>]\<rparr>)
      else (parse_response e r DeviceCodeSuccessSchema,
        w\<lparr>calls := calls w @ [auth_request this ''/device/token''
              \<lparr> init_headers = None, init_method = None,
                init_body = Some (JSON_stringify (JObj
                  [(''device_code'', JStr code),
                   (''client_id'', JStr DEVICE_OAUTH_CLIENT_ID)])) \<rparr>]\<rparr>))"
  using assms by (simp add: checkDeviceCode_def auth_fetch fetch_resolved)

lemma poll_request:
  "auth_request this ''/device/token''
     \<lparr> init_headers = None, init_method = None,
       init_body = Some (JSON_stringify (JObj
         [(''device_code'', JStr code),
          (''client_id'', JStr DEVICE_OAUTH_CLIENT_ID)])) \<rparr>
   = \<lparr> url = bigCommerceAuthUrl this @ ''/device/token'',
       req_method = Some ''POST'',
       req_headers = [(''Accept'', ''application/json''), (''Content-Type'', ''application/json''),
         (''User-Agent'', userAgent this)],
       req_body = Some (JSON_stringify (JObj
         [(''device_code'', JStr code),
          (''client_id'', JStr ''acse0vvawm9r1n0evag4b8e1ea1fo90'')])) \<rparr>"
  by (simp add: auth_request_def rest_method_def opts_headers_def spread_def
      DEVICE_OAUTH_CLIENT_ID_def)

lemma parse_response_cases:
  "json_body r = Some raw \<Longrightarrow>
   (\<exists>v. parse_response e r shape = Returned v)
   \<or> (\<exists>q ex rc. parse_response e r shape = Thrown (ValidationError q ex rc))"
  using parse_cases [of e raw shape] by (simp add: parse_response_def response_json_def)

text \<open>
  C4. One poll attempt, on a client with an auth URL, when the transport answers the
  request (a POST of the device code and the client identifier to \<open>/device/token\<close>)
  with a response. If the status is exactly 200 and the body is JSON, the body is
  validated: the attempt returns a grant exactly when the body is an object whose
  \<open>access_token\<close>, \<open>store_hash\<close>, \<open>context\<close> and \<open>api_uri\<close> are strings
  and \<open>api_uri\<close> is a URL, the grant being the object of those four fields; otherwise
  it fails with a validation error. For every other status the attempt throws the error
  \<open>Device code not yet verified\<close>: the call comes back to its caller, who can poll
  again; the process is not ended and nothing is written to the console.
\<close>

theorem checkDeviceCode_contract:
  fixes e :: "'n env" and this :: Https and code :: string and req :: "'n request"
  defines "req \<equiv>
     \<lparr> url = bigCommerceAuthUrl this @ ''/device/token'',
       req_method = Some ''POST'',
       req_headers = [(''Accept'', ''application/json''), (''Content-Type'', ''application/json''),
         (''User-Agent'', userAgent this)],
       req_body = Some (JSON_stringify (JObj
         [(''device_code'', JStr code),
          (''client_id'', JStr ''acse0vvawm9r1n0evag4b8e1ea1fo90'')])) \<rparr>"
  assumes cred: "bigCommerceAuthUrl this \<noteq> []"
    and resp: "transport e (calls w) req = Inr r"
  shows "(status r = 200 \<and> json_body r = Some raw \<longrightarrow>
           snd (checkDeviceCode e this code w) = w\<lparr>calls := calls w @ [req]\<rparr>
           \<and> (fst (checkDeviceCode e this code w) = Returned grant \<longleftrightarrow>
               (\<exists>ps a s c u. raw = JObj ps
                  \<and> get_prop ps ''access_token'' = Some (JStr a)
                  \<and> get_prop ps ''store_hash'' = Some (JStr s)
                  \<and> get_prop ps ''context'' = Some (JStr c)
                  \<and> get_prop ps ''api_uri'' = Some (JStr u) \<and> isUrl e u
                  \<and> grant = JObj [(''access_token'', JStr a), (''store_hash'', JStr s),
                       (''context'', JStr c), (''api_uri'', JStr u)]))
           \<and> ((\<exists>g. fst (checkDeviceCode e this code w) = Returned g)
              \<or> (\<exists>q ex rc. fst (checkDeviceCode e this code w) =
                    Thrown (ValidationError q ex rc))))
    \<and> (status r \<noteq> 200 \<longrightarrow>
         checkDeviceCode e this code w =
           (Thrown (Error ''Device code not yet verified''), w\<lparr>calls := calls w @ [req]\<rparr>))"
proof -
  have req: "req = auth_request this ''/device/token''
     \<lparr> init_headers = None, init_method = None,
       init_body = Some (JSON_stringify (JObj
         [(''device_code'', JStr code),
          (''client_id'', JStr DEVICE_OAUTH_CLIENT_ID)])) \<rparr>"
    unfolding req_def poll_request ..
  note run = checkDeviceCode_resolved [OF cred resp [unfolded req], folded req]
  have granted: "snd (checkDeviceCode e this code w) = w\<lparr>calls := calls w @ [req]\<rparr>
           \<and> (fst (checkDeviceCode e this code w) = Returned grant \<longleftrightarrow>
               (\<exists>ps a s c u. raw = JObj ps
                  \<and> get_prop ps ''access_token'' = Some (JStr a)
                  \<and> get_prop ps ''store_hash'' = Some (JStr s)
                  \<and> get_prop ps ''context'' = Some (JStr c)
                  \<and> get_prop ps ''api_uri'' = Some (JStr u) \<and> isUrl e u
                  \<and> grant = JObj [(''access_token'', JStr a), (''store_hash'', JStr s),
                       (''context'', JStr c), (''api_uri'', JStr u)]))"
    if "status r = 200" "json_body r = Some raw"
    using that run
    by (simp add: parse_response_def response_json_def parse_DeviceCodeSuccessSchema)
  have validated: "(\<exists>g. fst (checkDeviceCode e this code w) = Returned g)
              \<or> (\<exists>q ex rc. fst (checkDeviceCode e this code w) =
                    Thrown (ValidationError q ex rc))"
    if "status r = 200" "json_body r = Some raw"
    using that run parse_response_cases [OF that(2), of e DeviceCodeSuccessSchema]
    by simp
  have pending: "checkDeviceCode e this code w =
           (Thrown (Error ''Device code not yet verified''), w\<lparr>calls := calls w @ [req]\<rparr>)"
    if "status r \<noteq> 200"
    using that run by simp
  from granted validated pending show ?thesis
    by blast
qed

theorem checkDeviceCode_contract_witness:
  "checkDeviceCode (canned (success grant_payload)) demo_client ''abc'' fresh =
     (Returned grant_payload,
      \<lparr> calls = [\<lparr> url = ''https://login.example/device/token'',
          req_method = Some ''POST'',
          req_headers = [(''Accept'', ''application/json''),
            (''Content-Type'', ''application/json''), (''User-Agent'', ''create-catalyst'')],
          req_body = Some (JSON_stringify (JObj
            [(''device_code'', JStr ''abc''),
             (''client_id'', JStr ''acse0vvawm9r1n0evag4b8e1ea1fo90'')])) \<rparr>],
        console = [] \<rparr>)
   \<and> checkDeviceCode (canned (created_with grant_payload)) demo_client ''abc'' fresh =
     (Thrown (Error ''Device code not yet verified''),
      \<lparr> calls = [\<lparr> url = ''https://login.example/device/token'',
          req_method = Some ''POST'',
          req_headers = [(''Accept'', ''application/json''),
            (''Content-Type'', ''application/json''), (''User-Agent'', ''create-catalyst'')],
          req_body = Some (JSON_stringify (JObj
            [(''device_code'', JStr ''abc''),
             (''client_id'', JStr ''acse0vvawm9r1n0evag4b8e1ea1fo90'')])) \<rparr>],
        console = [] \<rparr>)"
proof -
  have cred: "bigCommerceAuthUrl demo_client \<noteq> []"
    by (simp add: demo_client_fields)
  have t200: "transport (canned (success grant_payload)) (calls fresh) q = Inr (success grant_payload)"
    and t201: "transport (canned (created_with grant_payload)) (calls fresh) q =
      Inr (created_with grant_payload)" for q
    by (simp_all add: canned_def)
  note good = checkDeviceCode_contract [OF cred t200, where code = "''abc''"
    and raw = grant_payload and grant = grant_payload]
  note pend = checkDeviceCode_contract [OF cred t201, where code = "''abc''"]
  have "fst (checkDeviceCode (canned (success grant_payload)) demo_client ''abc'' fresh) =
      Returned grant_payload"
    using good by (simp add: canned_def success_def grant_payload_def get_prop_def)
  moreover have "snd (checkDeviceCode (canned (success grant_payload)) demo_client ''abc'' fresh) =
      \<lparr> calls = [\<lparr> url = ''https://login.example/device/token'',
          req_method = Some ''POST'',
          req_headers = [(''Accept'', ''application/json''),
            (''Content-Type'', ''application/json''), (''User-Agent'', ''create-catalyst'')],
          req_body = Some (JSON_stringify (JObj
            [(''device_code'', JStr ''abc''),
             (''client_id'', JStr ''acse0vvawm9r1n0evag4b8e1ea1fo90'')])) \<rparr>],
        console = [] \<rparr>"
    using good by (simp add: success_def demo_client_fields fresh_def)
  moreover have "checkDeviceCode (canned (created_with grant_payload)) demo_client ''abc'' fresh =
     (Thrown (Error ''Device code not yet verified''),
      \<lparr> calls = [\<lparr> url = ''https://login.example/device/token'',
          req_method = Some ''POST'',
          req_headers = [(''Accept'', ''application/json''),
            (''Content-Type'', ''application/json''), (''User-Agent'', ''create-catalyst'')],
          req_body = Some (JSON_stringify (JObj
            [(''device_code'', JStr ''abc''),
             (''client_id'', JStr ''acse0vvawm9r1n0evag4b8e1ea1fo90'')])) \<rparr>],
        console = [] \<rparr>)"
    using pend by (simp add: created_with_def demo_client_fields fresh_def)
  ultimately show ?thesis
    by (simp add: prod_eq_iff)
qed

subsection \<open>The sample channel\<close>

lemma createChannel_resolved:
  assumes "sampleDataApiUrl this \<noteq> []" "storeHash this \<noteq> []" "accessToken this \<noteq> []"
    and "transport e (calls w)
           (sampleDataApi_request this ''/v3/channels/catalyst''
              \<lparr> init_headers = None, init_method = None,
                init_body = Some (JSON_stringify (JObj
                  [(''name'', JStr channelName), (''tokenType'', JStr ''normal'')])) \<rparr>) = Inr r"
  shows "createChannel e this channelName w =
     (if \<not> ok r
      then exit_with_error (nl @ ''POST /v3/channels/catalyst'' @ failed_with r)
        (w\<lparr>calls := calls w @ [sampleDataApi_request this ''/v3/channels/catalyst''
              \<lparr> init_headers = None, init_method = None,
                init_body = Some (JSON_stringify (JObj
                  [(''name'', JStr channelName), (''tokenType'', JStr ''normal'')])) \<rparr>]\<rparr>)
      else (parse_response e r SampleDataChannelCreateSchema,
        w\<lparr>calls := calls w @ [sampleDataApi_request this ''/v3/channels/catalyst''
              \<lparr> init_headers = None, init_method = None,
                init_body = Some (JSON_stringify (JObj
                  [(''name'', JStr channelName), (''tokenType'', JStr ''normal'')])) \<rparr>]\<rparr>))"
  using assms by (simp add: createChannel_def sampleDataApi_fetch fetch_resolved)

lemma create_channel_request:
  "sampleDataApi_request this ''/v3/channels/catalyst''
     \<lparr> init_headers = None, init_method = None,
       init_body = Some (JSON_stringify (JObj
         [(''name'', JStr channelName), (''tokenType'', JStr ''normal'')])) \<rparr>
   = \<lparr> url = sampleDataApiUrl this @ ''/stores/'' @ storeHash this @ ''/v3/channels/catalyst'',
       req_method = Some ''POST'',
       req_headers = [(''Accept'', ''application/json''), (''Content-Type'', ''application/json''),
         (''X-Auth-Token'', accessToken this), (''User-Agent'', userAgent this)],
       req_body = Some (JSON_stringify (JObj
         [(''name'', JStr channelName), (''tokenType'', JStr ''normal'')])) \<rparr>"
  by (simp add: sampleDataApi_request_def rest_method_def opts_headers_def spread_def)

lemma createChannel_calls:
  "sampleDataApiUrl this \<noteq> [] \<Longrightarrow> storeHash this \<noteq> [] \<Longrightarrow> accessToken this \<noteq> [] \<Longrightarrow>
   calls (snd (createChannel e this channelName w)) = calls w @
     [sampleDataApi_request this ''/v3/channels/catalyst''
     \<lparr> init_headers = None, init_method = None,
       init_body = Some (JSON_stringify (JObj
         [(''name'', JStr channelName), (''tokenType'', JStr ''normal'')])) \<rparr>]"
  by (simp add: createChannel_def sampleDataApi_fetch fetch_def Let_def exit_with_error_def
      split: sum.splits)

text \<open>
  C6. On a client with sample-data URL, store hash and access token,
  \<open>createChannel name\<close> issues exactly one request: a POST to
  \<open>/v3/channels/catalyst\<close> under the store of the sample-data API, whose body is the
  JSON text of \<open>{name, tokenType: "normal"}\<close>. On a 2xx response with a JSON body it
  returns a value exactly when the body is an object whose \<open>data\<close> is an object with
  a number \<open>id\<close>, a non-empty string \<open>name\<close> and a string
  \<open>storefront_api_token\<close>, and the value returned is \<open>data\<close> with those three
  fields and their values. A 2xx response whose \<open>data.name\<close> is the empty string
  fails with a validation error. A response that is not 2xx ends the process with exit
  code 1 before anything is validated.
\<close>

theorem createChannel_contract:
  fixes e :: "'n env" and this :: Https and channelName :: string and req :: "'n request"
  defines "req \<equiv>
     \<lparr> url = sampleDataApiUrl this @ ''/stores/'' @ storeHash this @ ''/v3/channels/catalyst'',
       req_method = Some ''POST'',
       req_headers = [(''Accept'', ''application/json''), (''Content-Type'', ''application/json''),
         (''X-Auth-Token'', accessToken this), (''User-Agent'', userAgent this)],
       req_body = Some (JSON_stringify (JObj
         [(''name'', JStr channelName), (''tokenType'', JStr ''normal'')])) \<rparr>"
  assumes cred: "sampleDataApiUrl this \<noteq> []" "storeHash this \<noteq> []" "accessToken this \<noteq> []"
  shows "calls (snd (createChannel e this channelName w)) = calls w @ [req]
    \<and> (transport e (calls w) req = Inr r \<and> ok r \<and> json_body r = Some raw \<longrightarrow>
         snd (createChannel e this channelName w) = w\<lparr>calls := calls w @ [req]\<rparr>
         \<and> (fst (createChannel e this channelName w) = Returned v \<longleftrightarrow>
             (\<exists>ps d i n t. raw = JObj ps
                \<and> get_prop ps ''data'' = Some (JObj d)
                \<and> get_prop d ''id'' = Some (JNum i)
                \<and> get_prop d ''name'' = Some (JStr n) \<and> n \<noteq> []
                \<and> get_prop d ''storefront_api_token'' = Some (JStr t)
                \<and> v = JObj [(''data'', JObj [(''id'', JNum i), (''name'', JStr n),
                     (''storefront_api_token'', JStr t)])])))
    \<and> (transport e (calls w) req = Inr r \<and> ok r \<and> json_body r = Some (JObj ps)
         \<and> get_prop ps ''data'' = Some (JObj d) \<and> get_prop d ''name'' = Some (JStr []) \<longrightarrow>
         (\<exists>q ex rc. fst (createChannel e this channelName w) = Thrown (ValidationError q ex rc)))
    \<and> (transport e (calls w) req = Inr r \<and> \<not> ok r \<longrightarrow>
         createChannel e this channelName w =
           (Exited 1, w\<lparr>calls := calls w @ [req],
              console := console w @ [ConsoleError (Red
                (nl @ ''POST /v3/channels/catalyst failed: '' @ show_nat (status r) @ '' ''
                   @ statusText r @ nl))]\<rparr>))"
proof -
  have req: "req = sampleDataApi_request this ''/v3/channels/catalyst''
     \<lparr> init_headers = None, init_method = None,
       init_body = Some (JSON_stringify (JObj
         [(''name'', JStr channelName), (''tokenType'', JStr ''normal'')])) \<rparr>"
    unfolding req_def create_channel_request ..
  have one: "calls (snd (createChannel e this channelName w)) = calls w @ [req]"
    unfolding req using cred by (rule createChannel_calls)
  have good: "snd (createChannel e this channelName w) = w\<lparr>calls := calls w @ [req]\<rparr>
         \<and> (fst (createChannel e this channelName w) = Returned v \<longleftrightarrow>
             (\<exists>ps d i n t. raw = JObj ps
                \<and> get_prop ps ''data'' = Some (JObj d)
                \<and> get_prop d ''id'' = Some (JNum i)
                \<and> get_prop d ''name'' = Some (JStr n) \<and> n \<noteq> []
                \<and> get_prop d ''storefront_api_token'' = Some (JStr t)
                \<and> v = JObj [(''data'', JObj [(''id'', JNum i), (''name'', JStr n),
                     (''storefront_api_token'', JStr t)])]))"
    if "transport e (calls w) req = Inr r" "ok r" "json_body r = Some raw" for raw v
    using that createChannel_resolved [OF cred, of e w channelName r]
    unfolding req [symmetric]
    by (simp add: parse_response_def response_json_def parse_SampleDataChannelCreateSchema)
  have unnamed: "\<exists>q ex rc. fst (createChannel e this channelName w) = Thrown (ValidationError q ex rc)"
    if r: "transport e (calls w) req = Inr r" "ok r" and body: "json_body r = Some (JObj ps)"
      and name: "get_prop ps ''data'' = Some (JObj d)" "get_prop d ''name'' = Some (JStr [])"
  proof -
    have "fst (createChannel e this channelName w) = parse_response e r SampleDataChannelCreateSchema"
      using r createChannel_resolved [OF cred, of e w channelName r]
      unfolding req [symmetric] by simp
    moreover have "fst (createChannel e this channelName w) \<noteq> Returned v" for v
      using good [OF r body, of v] name by auto
    ultimately show ?thesis
      using parse_response_cases [OF body, of e SampleDataChannelCreateSchema] by auto
  qed
  have fatal: "createChannel e this channelName w =
           (Exited 1, w\<lparr>calls := calls w @ [req],
              console := console w @ [ConsoleError (Red
                (nl @ ''POST /v3/channels/catalyst failed: '' @ show_nat (status r) @ '' ''
                   @ statusText r @ nl))]\<rparr>)"
    if "transport e (calls w) req = Inr r" "\<not> ok r"
    using that createChannel_resolved [OF cred, of e w channelName r]
    unfolding req [symmetric]
    by (simp add: exit_with_error_def failed_with_def)
  from one good unnamed fatal show ?thesis
    by blast
qed

theorem createChannel_contract_witness:
  "fst (createChannel (canned (success (channel_payload ''demo''))) demo_client ''demo'' fresh) =
     Returned (JObj [(''data'', JObj [(''id'', JNum 7), (''name'', JStr ''demo''),
       (''storefront_api_token'', JStr ''tok'')])])
   \<and> calls (snd (createChannel (canned (success (channel_payload ''demo''))) demo_client ''demo'' fresh)) =
     [\<lparr> url = ''https://sample.example/stores/abc123/v3/channels/catalyst'',
        req_method = Some ''POST'',
        req_headers = [(''Accept'', ''application/json''), (''Content-Type'', ''application/json''),
          (''X-Auth-Token'', ''secret''), (''User-Agent'', ''create-catalyst'')],
        req_body = Some (JSON_stringify (JObj
          [(''name'', JStr ''demo''), (''tokenType'', JStr ''normal'')])) \<rparr>]
   \<and> (\<exists>q ex rc. fst (createChannel (canned (success (channel_payload ''''))) demo_client ''demo'' fresh) =
     Thrown (ValidationError q ex rc))"
proof -
  have cred: "sampleDataApiUrl demo_client \<noteq> []" "storeHash demo_client \<noteq> []"
    "accessToken demo_client \<noteq> []"
    by (simp_all add: demo_client_fields)
  note good = createChannel_contract [OF cred, where e = "canned (success (channel_payload ''demo''))"
    and channelName = "''demo''" and w = fresh and r = "success (channel_payload ''demo'')"
    and raw = "channel_payload ''demo''" and v = "channel_payload ''demo''"]
  note bad = createChannel_contract [OF cred, where e = "canned (success (channel_payload ''''))"
    and channelName = "''demo''" and w = fresh and r = "success (channel_payload '''')"
    and ps = "[(''data'', JObj [(''id'', JNum 7), (''name'', JStr ''''),
       (''storefront_api_token'', JStr ''tok'')])]"
    and d = "[(''id'', JNum 7), (''name'', JStr ''''), (''storefront_api_token'', JStr ''tok'')]"]
  have "fst (createChannel (canned (success (channel_payload ''demo''))) demo_client ''demo'' fresh) =
     Returned (JObj [(''data'', JObj [(''id'', JNum 7), (''name'', JStr ''demo''),
       (''storefront_api_token'', JStr ''tok'')])])"
    using good by (simp add: canned_def success_def ok_def channel_payload_def get_prop_def)
  moreover have "calls (snd (createChannel (canned (success (channel_payload ''demo''))) demo_client ''demo'' fresh)) =
     [\<lparr> url = ''https://sample.example/stores/abc123/v3/channels/catalyst'',
        req_method = Some ''POST'',
        req_headers = [(''Accept'', ''application/json''), (''Content-Type'', ''application/json''),
          (''X-Auth-Token'', ''secret''), (''User-Agent'', ''create-catalyst'')],
        req_body = Some (JSON_stringify (JObj
          [(''name'', JStr ''demo''), (''tokenType'', JStr ''normal'')])) \<rparr>]"
    using good by (simp add: demo_client_fields fresh_def)
  moreover have "\<exists>q ex rc. fst (createChannel (canned (success (channel_payload ''''))) demo_client ''demo'' fresh) =
     Thrown (ValidationError q ex rc)"
    using bad by (simp add: canned_def success_def ok_def channel_payload_def get_prop_def)
  ultimately show ?thesis
    by blast
qed

subsection \<open>The provisioning calls\<close>

lemma storeInformation_resolved:
  assumes "bigCommerceApiUrl this \<noteq> []" "storeHash this \<noteq> []" "accessToken this \<noteq> []"
    and "transport e (calls w) (api_request this ''/v2/store'' no_opts) = Inr r"
  shows "storeInformation e this w =
     (if \<not> ok r
      then exit_with_error (nl @ ''GET /v2/store'' @ failed_with r)
        (w\<lparr>calls := calls w @ [api_request this ''/v2/store'' no_opts]\<rparr>)
      else (parse_response e r BigCommerceStoreInfo,
        w\<lparr>calls := calls w @ [api_request this ''/v2/store'' no_opts]\<rparr>))"
  using assms by (simp add: storeInformation_def api_fetch fetch_resolved)

lemma channels_resolved:
  assumes "bigCommerceApiUrl this \<noteq> []" "storeHash this \<noteq> []" "accessToken this \<noteq> []"
    and "transport e (calls w) (api_request this (''/v3/channels'' @ query) no_opts) = Inr r"
  shows "channels e this query w =
     (if \<not> ok r
      then exit_with_error (nl @ ''GET /v3/channels'' @ failed_with r)
        (w\<lparr>calls := calls w @ [api_request this (''/v3/channels'' @ query) no_opts]\<rparr>)
      else (parse_response e r BigCommerceChannelsV3ResponseSchema,
        w\<lparr>calls := calls w @ [api_request this (''/v3/channels'' @ query) no_opts]\<rparr>))"
  using assms by (simp add: channels_def api_fetch fetch_resolved)

lemma createChannelMenus_resolved:
  assumes "bigCommerceApiUrl this \<noteq> []" "storeHash this \<noteq> []" "accessToken this \<noteq> []"
    and "transport e (calls w)
          (api_request this (''/v3/channels/'' @ numberToString e channelId @ ''/channel-menus'')
             \<lparr> init_headers = Some [(''Content-Type'', ''application/json'')],
               init_method = Some ''POST'',
               init_body = Some (JSON_stringify (JObj
                 [(''bigcommerce_protected_app_sections'',
                   JArr [JStr ''storefront_settings'', JStr ''currencies'', JStr ''domains'',
                         JStr ''notifications'', JStr ''social''])])) \<rparr>) = Inr r"
  shows "createChannelMenus e this channelId w =
     (Returned (),
      if \<not> ok r
      then w\<lparr>calls := calls w @
          [api_request this (''/v3/channels/'' @ numberToString e channelId @ ''/channel-menus'')
             \<lparr> init_headers = Some [(''Content-Type'', ''application/json'')],
               init_method = Some ''POST'',
               init_body = Some (JSON_stringify (JObj
                 [(''bigcommerce_protected_app_sections'',
                   JArr [JStr ''storefront_settings'', JStr ''currencies'', JStr ''domains'',
                         JStr ''notifications'', JStr ''social''])])) \<rparr>],
        console := console w @ [ConsoleWarn (Yellow
              (nl @ ''Failed to create channel menus: '' @ show_nat (status r) @ '' ''
                 @ statusText r @ ''. You may want to create these later: ''
                 @ channel_menus_link @ nl))]\<rparr>
      else w\<lparr>calls := calls w @
          [api_request this (''/v3/channels/'' @ numberToString e channelId @ ''/channel-menus'')
             \<lparr> init_headers = Some [(''Content-Type'', ''application/json'')],
               init_method = Some ''POST'',
               init_body = Some (JSON_stringify (JObj
                 [(''bigcommerce_protected_app_sections'',
                   JArr [JStr ''storefront_settings'', JStr ''currencies'', JStr ''domains'',
                         JStr ''notifications'', JStr ''social''])])) \<rparr>]\<rparr>)"
  using assms by (simp add: createChannelMenus_def api_fetch fetch_resolved)

lemma storefrontToken_resolved:
  assumes "bigCommerceApiUrl this \<noteq> []" "storeHash this \<noteq> []" "accessToken this \<noteq> []"
    and "transport e (calls w)
          (api_request this ''/v3/storefront/api-token''
             \<lparr> init_headers = Some [(''Content-Type'', ''application/json'')],
               init_method = Some ''POST'',
               init_body = Some (JSON_stringify (JObj
                 [(''expires_at'', JNum MAX_EPOC_EXPIRES_AT), (''channel_ids'', JArr [])])) \<rparr>) = Inr r"
  shows "storefrontToken e this w =
     (if \<not> ok r
      then exit_with_error (nl @ ''POST /v3/storefront/api-token'' @ failed_with r)
        (w\<lparr>calls := calls w @ [api_request this ''/v3/storefront/api-token''
             \<lparr> init_headers = Some [(''Content-Type'', ''application/json'')],
               init_method = Some ''POST'',
               init_body = Some (JSON_stringify (JObj
                 [(''expires_at'', JNum MAX_EPOC_EXPIRES_AT), (''channel_ids'', JArr [])])) \<rparr>]\<rparr>)
      else (parse_response e r BigCommerceStorefrontTokenSchema,
        w\<lparr>calls := calls w @ [api_request this ''/v3/storefront/api-token''
             \<lparr> init_headers = Some [(''Content-Type'', ''application/json'')],
               init_method = Some ''POST'',
               init_body = Some (JSON_stringify (JObj
                 [(''expires_at'', JNum MAX_EPOC_EXPIRES_AT), (''channel_ids'', JArr [])])) \<rparr>]\<rparr>))"
  using assms by (simp add: storefrontToken_def api_fetch fetch_resolved)

lemma storefrontToken_calls:
  "bigCommerceApiUrl this \<noteq> [] \<Longrightarrow> storeHash this \<noteq> [] \<Longrightarrow> accessToken this \<noteq> [] \<Longrightarrow>
   calls (snd (storefrontToken e this w)) = calls w @
     [api_request this ''/v3/storefront/api-token''
             \<lparr> init_headers = Some [(''Content-Type'', ''application/json'')],
               init_method = Some ''POST'',
               init_body = Some (JSON_stringify (JObj
                 [(''expires_at'', JNum MAX_EPOC_EXPIRES_AT), (''channel_ids'', JArr [])])) \<rparr>]"
  by (simp add: storefrontToken_def api_fetch fetch_def Let_def exit_with_error_def
      split: sum.splits)

lemma checkEligibility_resolved:
  assumes "sampleDataApiUrl this \<noteq> []" "storeHash this \<noteq> []" "accessToken this \<noteq> []"
    and "transport e (calls w)
          (sampleDataApi_request this ''/v3/channels/catalyst/eligibility''
             \<lparr> init_headers = None, init_method = Some ''GET'', init_body = None \<rparr>) = Inr r"
  shows "checkEligibility e this w =
     (if \<not> ok r
      then exit_with_error (nl @ ''GET /v3/channels/catalyst/eligibility'' @ failed_with r)
        (w\<lparr>calls := calls w @ [sampleDataApi_request this ''/v3/channels/catalyst/eligibility''
             \<lparr> init_headers = None, init_method = Some ''GET'', init_body = None \<rparr>]\<rparr>)
      else (parse_response e r CheckEligibilitySchema,
        w\<lparr>calls := calls w @ [sampleDataApi_request this ''/v3/channels/catalyst/eligibility''
             \<lparr> init_headers = None, init_method = Some ''GET'', init_body = None \<rparr>]\<rparr>))"
  using assms by (simp add: checkEligibility_def sampleDataApi_fetch fetch_resolved)

lemma channel_menus_request:
  "api_request this (''/v3/channels/'' @ shown @ ''/channel-menus'')
     \<lparr> init_headers = Some [(''Content-Type'', ''application/json'')],
       init_method = Some ''POST'',
       init_body = Some (JSON_stringify (JObj
         [(''bigcommerce_protected_app_sections'',
           JArr [JStr ''storefront_settings'', JStr ''currencies'', JStr ''domains'',
                 JStr ''notifications'', JStr ''social''])])) \<rparr>
   = \<lparr> url = bigCommerceApiUrl this @ ''/stores/'' @ storeHash this @ ''/v3/channels/'' @ shown
         @ ''/channel-menus'',
       req_method = Some ''POST'',
       req_headers = [(''Content-Type'', ''application/json''), (''Accept'', ''application/json''),
         (''X-Auth-Token'', accessToken this), (''User-Agent'', userAgent this)],
       req_body = Some (JSON_stringify (JObj
         [(''bigcommerce_protected_app_sections'',
           JArr [JStr ''storefront_settings'', JStr ''currencies'', JStr ''domains'',
                 JStr ''notifications'', JStr ''social''])])) \<rparr>"
  by (simp add: api_request_def rest_method_def opts_headers_def spread_def)

lemma storefront_token_request:
  "api_request this ''/v3/storefront/api-token''
     \<lparr> init_headers = Some [(''Content-Type'', ''application/json'')],
       init_method = Some ''POST'',
       init_body = Some (JSON_stringify (JObj
         [(''expires_at'', JNum MAX_EPOC_EXPIRES_AT), (''channel_ids'', JArr [])])) \<rparr>
   = \<lparr> url = bigCommerceApiUrl this @ ''/stores/'' @ storeHash this @ ''/v3/storefront/api-token'',
       req_method = Some ''POST'',
       req_headers = [(''Content-Type'', ''application/json''), (''Accept'', ''application/json''),
         (''X-Auth-Token'', accessToken this), (''User-Agent'', userAgent this)],
       req_body = Some (JSON_stringify (JObj
         [(''expires_at'', JNum 2147483647), (''channel_ids'', JArr [])])) \<rparr>"
  by (simp add: api_request_def rest_method_def opts_headers_def spread_def MAX_EPOC_EXPIRES_AT_def)


lemma and_then_Returned: "f w = (Returned x, w1) \<Longrightarrow> and_then f g w = g x w1"
  by (simp add: and_then_def)

text \<open>
  C5. On a client with API URL, store hash and access token, when the transport answers
  the request of \<open>createChannelMenus\<close> with a response that is not 2xx, the call
  returns normally: it has issued its one request and written one warning, which names
  the status and ends with the link to the documentation of channel menus; the process
  is not ended and nothing is thrown. A caller that calls \<open>storefrontToken\<close> next
  therefore issues that request as well. The other five provisioning calls
  (\<open>storeInformation\<close>, \<open>channels\<close>, \<open>storefrontToken\<close>,
  \<open>checkEligibility\<close>, \<open>createChannel\<close>) end the process with exit code 1 on
  a response that is not 2xx.
\<close>

theorem createChannelMenus_is_not_fatal:
  fixes e :: "('n::numeral) env" and this :: Https and channelId :: 'n
    and menus token :: "'n request"
  defines "menus \<equiv>
     \<lparr> url = bigCommerceApiUrl this @ ''/stores/'' @ storeHash this @ ''/v3/channels/''
         @ numberToString e channelId @ ''/channel-menus'',
       req_method = Some ''POST'',
       req_headers = [(''Content-Type'', ''application/json''), (''Accept'', ''application/json''),
         (''X-Auth-Token'', accessToken this), (''User-Agent'', userAgent this)],
       req_body = Some (JSON_stringify (JObj
         [(''bigcommerce_protected_app_sections'',
           JArr [JStr ''storefront_settings'', JStr ''currencies'', JStr ''domains'',
                 JStr ''notifications'', JStr ''social''])])) \<rparr>"
    and "token \<equiv>
     \<lparr> url = bigCommerceApiUrl this @ ''/stores/'' @ storeHash this @ ''/v3/storefront/api-token'',
       req_method = Some ''POST'',
       req_headers = [(''Content-Type'', ''application/json''), (''Accept'', ''application/json''),
         (''X-Auth-Token'', accessToken this), (''User-Agent'', userAgent this)],
       req_body = Some (JSON_stringify (JObj
         [(''expires_at'', JNum 2147483647), (''channel_ids'', JArr [])])) \<rparr>"
  assumes cred: "bigCommerceApiUrl this \<noteq> []" "storeHash this \<noteq> []" "accessToken this \<noteq> []"
    and resp: "transport e (calls w) menus = Inr r"
    and bad: "\<not> ok r"
  shows "createChannelMenus e this channelId w =
      (Returned (), w\<lparr>calls := calls w @ [menus],
         console := console w @ [ConsoleWarn (Yellow
           (nl @ ''Failed to create channel menus: '' @ show_nat (status r) @ '' ''
              @ statusText r @ ''. You may want to create these later: ''
              @ ''https://developer.bigcommerce.com/docs/rest-management/channels/menus#create-channel-menus''
              @ nl))]\<rparr>)
    \<and> calls (snd (and_then (createChannelMenus e this channelId)
          (\<lambda>u. storefrontToken e this) w)) = calls w @ [menus, token]
    \<and> (\<forall>w' r'. transport e (calls w') (api_request this ''/v2/store'' no_opts) = Inr r'
          \<and> \<not> ok r' \<longrightarrow> fst (storeInformation e this w') = Exited 1)
    \<and> (\<forall>query w' r'.
          transport e (calls w') (api_request this (''/v3/channels'' @ query) no_opts) = Inr r'
          \<and> \<not> ok r' \<longrightarrow> fst (channels e this query w') = Exited 1)
    \<and> (\<forall>w' r'. transport e (calls w') token = Inr r' \<and> \<not> ok r' \<longrightarrow>
          fst (storefrontToken e this w') = Exited 1)
    \<and> (sampleDataApiUrl this \<noteq> [] \<longrightarrow>
        (\<forall>w' r'. transport e (calls w')
             (sampleDataApi_request this ''/v3/channels/catalyst/eligibility''
                \<lparr> init_headers = None, init_method = Some ''GET'', init_body = None \<rparr>) = Inr r'
           \<and> \<not> ok r' \<longrightarrow> fst (checkEligibility e this w') = Exited 1)
        \<and> (\<forall>name w' r'. transport e (calls w')
             (sampleDataApi_request this ''/v3/channels/catalyst''
                \<lparr> init_headers = None, init_method = None,
                  init_body = Some (JSON_stringify (JObj
                    [(''name'', JStr name), (''tokenType'', JStr ''normal'')])) \<rparr>) = Inr r'
           \<and> \<not> ok r' \<longrightarrow> fst (createChannel e this name w') = Exited 1))"
proof -
  have menus: "menus = api_request this
      (''/v3/channels/'' @ numberToString e channelId @ ''/channel-menus'')
      \<lparr> init_headers = Some [(''Content-Type'', ''application/json'')],
        init_method = Some ''POST'',
        init_body = Some (JSON_stringify (JObj
          [(''bigcommerce_protected_app_sections'',
            JArr [JStr ''storefront_settings'', JStr ''currencies'', JStr ''domains'',
                  JStr ''notifications'', JStr ''social''])])) \<rparr>"
    unfolding menus_def channel_menus_request ..
  have token: "token = api_request this ''/v3/storefront/api-token''
      \<lparr> init_headers = Some [(''Content-Type'', ''application/json'')],
        init_method = Some ''POST'',
        init_body = Some (JSON_stringify (JObj
          [(''expires_at'', JNum MAX_EPOC_EXPIRES_AT), (''channel_ids'', JArr [])])) \<rparr>"
    unfolding token_def storefront_token_request ..
  have warned: "createChannelMenus e this channelId w =
      (Returned (), w\<lparr>calls := calls w @ [menus],
         console := console w @ [ConsoleWarn (Yellow
           (nl @ ''Failed to create channel menus: '' @ show_nat (status r) @ '' ''
              @ statusText r @ ''. You may want to create these later: ''
              @ ''https://developer.bigcommerce.com/docs/rest-management/channels/menus#create-channel-menus''
              @ nl))]\<rparr>)"
    using createChannelMenus_resolved [OF cred resp [unfolded menus], folded menus] bad
    by (simp add: channel_menus_link_def)
  have "and_then (createChannelMenus e this channelId) (\<lambda>u. storefrontToken e this) w =
      storefrontToken e this (w\<lparr>calls := calls w @ [menus],
         console := console w @ [ConsoleWarn (Yellow
           (nl @ ''Failed to create channel menus: '' @ show_nat (status r) @ '' ''
              @ statusText r @ ''. You may want to create these later: ''
              @ ''https://developer.bigcommerce.com/docs/rest-management/channels/menus#create-channel-menus''
              @ nl))]\<rparr>)"
    using warned by (rule and_then_Returned)
  then have next_issued: "calls (snd (and_then (createChannelMenus e this channelId)
          (\<lambda>u. storefrontToken e this) w)) = calls w @ [menus, token]"
    by (simp add: storefrontToken_calls [OF cred] token)
  have store: "fst (storeInformation e this w') = Exited 1"
    if "transport e (calls w') (api_request this ''/v2/store'' no_opts) = Inr r'" "\<not> ok r'"
    for w' r'
    using storeInformation_resolved [OF cred that(1)] that(2) by (simp add: exit_with_error_def)
  have chans: "fst (channels e this query w') = Exited 1"
    if "transport e (calls w') (api_request this (''/v3/channels'' @ query) no_opts) = Inr r'"
      "\<not> ok r'" for query w' r'
    using channels_resolved [OF cred that(1)] that(2) by (simp add: exit_with_error_def)
  have tok: "fst (storefrontToken e this w') = Exited 1"
    if "transport e (calls w') token = Inr r'" "\<not> ok r'" for w' r'
    using storefrontToken_resolved [OF cred that(1) [unfolded token]] that(2)
    by (simp add: exit_with_error_def)
  have elig: "fst (checkEligibility e this w') = Exited 1"
    if "sampleDataApiUrl this \<noteq> []"
      "transport e (calls w')
             (sampleDataApi_request this ''/v3/channels/catalyst/eligibility''
                \<lparr> init_headers = None, init_method = Some ''GET'', init_body = None \<rparr>) = Inr r'"
      "\<not> ok r'" for w' r'
    using checkEligibility_resolved [OF that(1) cred(2,3) that(2)] that(3)
    by (simp add: exit_with_error_def)
  have create: "fst (createChannel e this name w') = Exited 1"
    if "sampleDataApiUrl this \<noteq> []"
      "transport e (calls w')
             (sampleDataApi_request this ''/v3/channels/catalyst''
                \<lparr> init_headers = None, init_method = None,
                  init_body = Some (JSON_stringify (JObj
                    [(''name'', JStr name), (''tokenType'', JStr ''normal'')])) \<rparr>) = Inr r'"
      "\<not> ok r'" for name w' r'
    using createChannel_resolved [OF that(1) cred(2,3) that(2)] that(3)
    by (simp add: exit_with_error_def)
  from warned next_issued store chans tok elig create show ?thesis
    by blast
qed


theorem createChannelMenus_is_not_fatal_witness:
  "createChannelMenus (canned server_error) demo_client 42 fresh =
     (Returned (),
      \<lparr> calls = [\<lparr> url = ''https://api.example/stores/abc123/v3/channels/42/channel-menus'',
          req_method = Some ''POST'',
          req_headers = [(''Content-Type'', ''application/json''),
            (''Accept'', ''application/json''), (''X-Auth-Token'', ''secret''),
            (''User-Agent'', ''create-catalyst'')],
          req_body = Some (JSON_stringify (JObj
            [(''bigcommerce_protected_app_sections'',
              JArr [JStr ''storefront_settings'', JStr ''currencies'', JStr ''domains'',
                    JStr ''notifications'', JStr ''social''])])) \<rparr>],
        console = [ConsoleWarn (Yellow
          ''\<newline>Failed to create channel menus: 500 Internal Server Error. You may want to create these later: https://developer.bigcommerce.com/docs/rest-management/channels/menus#create-channel-menus\<newline>'')] \<rparr>)
   \<and> map url (calls (snd (and_then (createChannelMenus (canned server_error) demo_client 42)
          (\<lambda>u. storefrontToken (canned server_error) demo_client) fresh))) =
     [''https://api.example/stores/abc123/v3/channels/42/channel-menus'',
      ''https://api.example/stores/abc123/v3/storefront/api-token'']
   \<and> fst (storeInformation (canned server_error) demo_client fresh) = Exited 1
   \<and> fst (createChannel (canned server_error) demo_client ''demo'' fresh) = Exited 1"
proof -
  have cred: "bigCommerceApiUrl demo_client \<noteq> []" "storeHash demo_client \<noteq> []"
    "accessToken demo_client \<noteq> []"
    by (simp_all add: demo_client_fields)
  have t500: "transport (canned server_error) cs q = Inr server_error" for cs q
    by (simp add: canned_def)
  have bad: "\<not> ok server_error"
    by (simp add: ok_def server_error_def)
  note run = createChannelMenus_is_not_fatal [OF cred t500 bad, where w = fresh and channelId = 42]
  have "createChannelMenus (canned server_error) demo_client 42 fresh =
     (Returned (),
      \<lparr> calls = [\<lparr> url = ''https://api.example/stores/abc123/v3/channels/42/channel-menus'',
          req_method = Some ''POST'',
          req_headers = [(''Content-Type'', ''application/json''),
            (''Accept'', ''application/json''), (''X-Auth-Token'', ''secret''),
            (''User-Agent'', ''create-catalyst'')],
          req_body = Some (JSON_stringify (JObj
            [(''bigcommerce_protected_app_sections'',
              JArr [JStr ''storefront_settings'', JStr ''currencies'', JStr ''domains'',
                    JStr ''notifications'', JStr ''social''])])) \<rparr>],
        console = [ConsoleWarn (Yellow
          ''\<newline>Failed to create channel menus: 500 Internal Server Error. You may want to create these later: https://developer.bigcommerce.com/docs/rest-management/channels/menus#create-channel-menus\<newline>'')] \<rparr>)"
    using run [THEN conjunct1]
    by (simp add: demo_client_fields fresh_def server_error_def nl_def canned_def show_int_def
        show_nat.simps)
  moreover have "map url (calls (snd (and_then (createChannelMenus (canned server_error) demo_client 42)
          (\<lambda>u. storefrontToken (canned server_error) demo_client) fresh))) =
     [''https://api.example/stores/abc123/v3/channels/42/channel-menus'',
      ''https://api.example/stores/abc123/v3/storefront/api-token'']"
    using run [THEN conjunct2, THEN conjunct1]
    by (simp add: demo_client_fields fresh_def canned_def show_int_def show_nat.simps)
  moreover have "fst (storeInformation (canned server_error) demo_client fresh) = Exited 1"
    using run [THEN conjunct2, THEN conjunct2, THEN conjunct1] t500 bad by blast
  moreover have "fst (createChannel (canned server_error) demo_client ''demo'' fresh) = Exited 1"
  proof -
    have "sampleDataApiUrl demo_client \<noteq> []"
      by (simp add: demo_client_fields)
    with run t500 bad show ?thesis
      by blast
  qed
  ultimately show ?thesis
    by blast
qed

text \<open>
  C3, as the code has it. For every response that is not 2xx, each of
  \<open>getDeviceCode\<close>, \<open>storeInformation\<close>, \<open>channels\<close>,
  \<open>storefrontToken\<close>, \<open>checkEligibility\<close> and \<open>createChannel\<close> (its
  credentials complete, the transport answering its request with that response) treats
  the response as fatal itself: it writes one line naming the method, the endpoint, the
  status and the status text to the error console and ends the process with exit code 1.
  Nothing is returned or thrown to the caller.
\<close>

theorem non_2xx_ends_the_process:
  fixes e :: "('n::numeral) env"
  assumes bad: "\<not> ok r"
  shows "(bigCommerceAuthUrl this \<noteq> [] \<longrightarrow>
      (transport e (calls w) (auth_request this ''/device/token''
           \<lparr> init_headers = None, init_method = None,
             init_body = Some (JSON_stringify (JObj
               [(''scopes'', JStr (join '' '' device_scopes)),
                (''client_id'', JStr DEVICE_OAUTH_CLIENT_ID)])) \<rparr>) = Inr r \<longrightarrow>
         fst (getDeviceCode e this w) = Exited 1
         \<and> console (snd (getDeviceCode e this w)) = console w @ [ConsoleError (Red
              (nl @ ''POST /device/token failed: '' @ show_nat (status r) @ '' ''
                 @ statusText r @ nl))]))
    \<and> (bigCommerceApiUrl this \<noteq> [] \<and> storeHash this \<noteq> [] \<and> accessToken this \<noteq> [] \<longrightarrow>
      (transport e (calls w) (api_request this ''/v2/store'' no_opts) = Inr r \<longrightarrow>
         fst (storeInformation e this w) = Exited 1
         \<and> console (snd (storeInformation e this w)) = console w @ [ConsoleError (Red
              (nl @ ''GET /v2/store failed: '' @ show_nat (status r) @ '' ''
                 @ statusText r @ nl))])
      \<and> (transport e (calls w) (api_request this (''/v3/channels'' @ query) no_opts) = Inr r \<longrightarrow>
         fst (channels e this query w) = Exited 1
         \<and> console (snd (channels e this query w)) = console w @ [ConsoleError (Red
              (nl @ ''GET /v3/channels failed: '' @ show_nat (status r) @ '' ''
                 @ statusText r @ nl))])
      \<and> (transport e (calls w) (api_request this ''/v3/storefront/api-token''
           \<lparr> init_headers = Some [(''Content-Type'', ''application/json'')],
             init_method = Some ''POST'',
             init_body = Some (JSON_stringify (JObj
               [(''expires_at'', JNum MAX_EPOC_EXPIRES_AT), (''channel_ids'', JArr [])])) \<rparr>)
           = Inr r \<longrightarrow>
         fst (storefrontToken e this w) = Exited 1
         \<and> console (snd (storefrontToken e this w)) = console w @ [ConsoleError (Red
              (nl @ ''POST /v3/storefront/api-token failed: '' @ show_nat (status r) @ '' ''
                 @ statusText r @ nl))]))
    \<and> (sampleDataApiUrl this \<noteq> [] \<and> storeHash this \<noteq> [] \<and> accessToken this \<noteq> [] \<longrightarrow>
      (transport e (calls w) (sampleDataApi_request this ''/v3/channels/catalyst/eligibility''
           \<lparr> init_headers = None, init_method = Some ''GET'', init_body = None \<rparr>) = Inr r \<longrightarrow>
         fst (checkEligibility e this w) = Exited 1
         \<and> console (snd (checkEligibility e this w)) = console w @ [ConsoleError (Red
              (nl @ ''GET /v3/channels/catalyst/eligibility failed: '' @ show_nat (status r)
                 @ '' '' @ statusText r @ nl))])
      \<and> (transport e (calls w) (sampleDataApi_request this ''/v3/channels/catalyst''
           \<lparr> init_headers = None, init_method = None,
             init_body = Some (JSON_stringify (JObj
               [(''name'', JStr channelName), (''tokenType'', JStr ''normal'')])) \<rparr>) = Inr r \<longrightarrow>
         fst (createChannel e this channelName w) = Exited 1
         \<and> console (snd (createChannel e this channelName w)) = console w @ [ConsoleError (Red
              (nl @ ''POST /v3/channels/catalyst failed: '' @ show_nat (status r) @ '' ''
                 @ statusText r @ nl))]))"
proof -
  have device: "fst (getDeviceCode e this w) = Exited 1
         \<and> console (snd (getDeviceCode e this w)) = console w @ [ConsoleError (Red
              (nl @ ''POST /device/token failed: '' @ show_nat (status r) @ '' ''
                 @ statusText r @ nl))]"
    if "bigCommerceAuthUrl this \<noteq> []"
      "transport e (calls w) (auth_request this ''/device/token''
           \<lparr> init_headers = None, init_method = None,
             init_body = Some (JSON_stringify (JObj
               [(''scopes'', JStr (join '' '' device_scopes)),
                (''client_id'', JStr DEVICE_OAUTH_CLIENT_ID)])) \<rparr>) = Inr r"
    using getDeviceCode_resolved [OF that] bad by (simp add: exit_with_error_def failed_with_def)
  have store: "fst (storeInformation e this w) = Exited 1
         \<and> console (snd (storeInformation e this w)) = console w @ [ConsoleError (Red
              (nl @ ''GET /v2/store failed: '' @ show_nat (status r) @ '' ''
                 @ statusText r @ nl))]"
    if "bigCommerceApiUrl this \<noteq> []" "storeHash this \<noteq> []" "accessToken this \<noteq> []"
      "transport e (calls w) (api_request this ''/v2/store'' no_opts) = Inr r"
    using storeInformation_resolved [OF that] bad by (simp add: exit_with_error_def failed_with_def)
  have chans: "fst (channels e this query w) = Exited 1
         \<and> console (snd (channels e this query w)) = console w @ [ConsoleError (Red
              (nl @ ''GET /v3/channels failed: '' @ show_nat (status r) @ '' ''
                 @ statusText r @ nl))]"
    if "bigCommerceApiUrl this \<noteq> []" "storeHash this \<noteq> []" "accessToken this \<noteq> []"
      "transport e (calls w) (api_request this (''/v3/channels'' @ query) no_opts) = Inr r"
    using channels_resolved [OF that] bad by (simp add: exit_with_error_def failed_with_def)
  have tok: "fst (storefrontToken e this w) = Exited 1
         \<and> console (snd (storefrontToken e this w)) = console w @ [ConsoleError (Red
              (nl @ ''POST /v3/storefront/api-token failed: '' @ show_nat (status r) @ '' ''
                 @ statusText r @ nl))]"
    if "bigCommerceApiUrl this \<noteq> []" "storeHash this \<noteq> []" "accessToken this \<noteq> []"
      "transport e (calls w) (api_request this ''/v3/storefront/api-token''
           \<lparr> init_headers = Some [(''Content-Type'', ''application/json'')],
             init_method = Some ''POST'',
             init_body = Some (JSON_stringify (JObj
               [(''expires_at'', JNum MAX_EPOC_EXPIRES_AT), (''channel_ids'', JArr [])])) \<rparr>)
           = Inr r"
    using storefrontToken_resolved [OF that] bad by (simp add: exit_with_error_def failed_with_def)
  have elig: "fst (checkEligibility e this w) = Exited 1
         \<and> console (snd (checkEligibility e this w)) = console w @ [ConsoleError (Red
              (nl @ ''GET /v3/channels/catalyst/eligibility failed: '' @ show_nat (status r)
                 @ '' '' @ statusText r @ nl))]"
    if "sampleDataApiUrl this \<noteq> []" "storeHash this \<noteq> []" "accessToken this \<noteq> []"
      "transport e (calls w) (sampleDataApi_request this ''/v3/channels/catalyst/eligibility''
           \<lparr> init_headers = None, init_method = Some ''GET'', init_body = None \<rparr>) = Inr r"
    using checkEligibility_resolved [OF that] bad by (simp add: exit_with_error_def failed_with_def)
  have create: "fst (createChannel e this channelName w) = Exited 1
         \<and> console (snd (createChannel e this channelName w)) = console w @ [ConsoleError (Red
              (nl @ ''POST /v3/channels/catalyst failed: '' @ show_nat (status r) @ '' ''
                 @ statusText r @ nl))]"
    if "sampleDataApiUrl this \<noteq> []" "storeHash this \<noteq> []" "accessToken this \<noteq> []"
      "transport e (calls w) (sampleDataApi_request this ''/v3/channels/catalyst''
           \<lparr> init_headers = None, init_method = None,
             init_body = Some (JSON_stringify (JObj
               [(''name'', JStr channelName), (''tokenType'', JStr ''normal'')])) \<rparr>) = Inr r"
    using createChannel_resolved [OF that] bad by (simp add: exit_with_error_def failed_with_def)
  from device store chans tok elig create show ?thesis
    by blast
qed

theorem non_2xx_ends_the_process_witness:
  "fst (storeInformation (canned server_error) demo_client fresh) = Exited 1
   \<and> console (snd (storeInformation (canned server_error) demo_client fresh)) =
     [ConsoleError (Red ''\<newline>GET /v2/store failed: 500 Internal Server Error\<newline>'')]
   \<and> fst (checkEligibility (canned server_error) demo_client fresh) = Exited 1
   \<and> console (snd (checkEligibility (canned server_error) demo_client fresh)) =
     [ConsoleError (Red
       ''\<newline>GET /v3/channels/catalyst/eligibility failed: 500 Internal Server Error\<newline>'')]"
proof -
  have t500: "transport (canned server_error) cs q = Inr server_error" for cs q
    by (simp add: canned_def)
  have bad: "\<not> ok server_error"
    by (simp add: ok_def server_error_def)
  note run = non_2xx_ends_the_process [OF bad, where e = "canned server_error"
    and this = demo_client and w = fresh]
  have "fst (storeInformation (canned server_error) demo_client fresh) = Exited 1
    \<and> console (snd (storeInformation (canned server_error) demo_client fresh)) =
      console fresh @ [ConsoleError (Red
              (nl @ ''GET /v2/store failed: '' @ show_nat (status server_error) @ '' ''
                 @ statusText server_error @ nl))]"
    using run t500 by (simp add: demo_client_fields)
  moreover have "fst (checkEligibility (canned server_error) demo_client fresh) = Exited 1
    \<and> console (snd (checkEligibility (canned server_error) demo_client fresh)) =
      console fresh @ [ConsoleError (Red
              (nl @ ''GET /v3/channels/catalyst/eligibility failed: '' @ show_nat (status server_error)
                 @ '' '' @ statusText server_error @ nl))]"
    using run t500 by (simp add: demo_client_fields)
  ultimately show ?thesis
    by (simp add: fresh_def server_error_def nl_def show_nat.simps)
qed

text \<open>
  C3 as the spec states it does not hold of the code: the spec has every response that
  is not 2xx handed to the caller as an error value to classify, the client never
  deciding what is fatal. On a 500 response \<open>storeInformation\<close> ends in
  \<open>Exited 1\<close>, the process ended by the client, with the message on the console
  and no value for the caller.
\<close>

theorem http_error_surfaced_counterexample:
  "\<not> ok server_error
   \<and> storeInformation (canned server_error) demo_client fresh =
     (Exited 1,
      \<lparr> calls = [\<lparr> url = ''https://api.example/stores/abc123/v2/store'', req_method = None,
          req_headers = [(''Accept'', ''application/json''), (''X-Auth-Token'', ''secret''),
            (''User-Agent'', ''create-catalyst'')],
          req_body = None \<rparr>],
        console = [ConsoleError (Red
          ''\<newline>GET /v2/store failed: 500 Internal Server Error\<newline>'')] \<rparr>)"
  by (simp add: storeInformation_def api_def api_request_def fetch_def canned_def server_error_def
      ok_def demo_client_fields fresh_def no_opts_def rest_method_def opts_headers_def spread_def
      exit_with_error_def failed_with_def nl_def show_nat.simps)

subsection \<open>Polling\<close>

lemma pollFrom_pending:
  assumes step: "0 < pollIntervalSeconds code"
    and cred: "bigCommerceAuthUrl this \<noteq> []"
    and pend: "\<forall>cs q. \<exists>r. transport e cs q = Inr r \<and> status r \<noteq> 200"
  shows "\<exists>w'. pollFrom e this code t w = Some (Thrown AuthTimeoutError, w')
    \<and> length (calls w') =
        length (calls w) + (expiresInSeconds code - t) div pollIntervalSeconds code
    \<and> console w' = console w"
proof (induction "expiresInSeconds code - t" arbitrary: t w rule: less_induct)
  case less
  show ?case
  proof (cases "expiresInSeconds code < t + pollIntervalSeconds code")
    case True
    with step have "expiresInSeconds code - t < pollIntervalSeconds code"
      by arith
    then have "(expiresInSeconds code - t) div pollIntervalSeconds code = 0"
      by (rule div_less)
    moreover have "pollFrom e this code t w = Some (Thrown AuthTimeoutError, w)"
      using True by (subst pollFrom.simps) simp
    ultimately show ?thesis
      by simp
  next
    case False
    let ?req = "auth_request this ''/device/token''
              \<lparr> init_headers = None, init_method = None,
                init_body = Some (JSON_stringify (JObj
                  [(''device_code'', JStr (deviceCode code)),
                   (''client_id'', JStr DEVICE_OAUTH_CLIENT_ID)])) \<rparr>"
    let ?w1 = "w\<lparr>calls := calls w @ [?req]\<rparr>"
    from pend obtain r where r: "transport e (calls w) ?req = Inr r" "status r \<noteq> 200"
      by blast
    have attempt: "checkDeviceCode e this (deviceCode code) w =
        (Thrown (Error ''Device code not yet verified''), ?w1)"
      using checkDeviceCode_resolved [OF cred r(1)] r(2) by simp
    have again: "pollFrom e this code t w =
        pollFrom e this code (t + pollIntervalSeconds code) ?w1"
      using False attempt by (subst pollFrom.simps) simp
    have "expiresInSeconds code - (t + pollIntervalSeconds code) < expiresInSeconds code - t"
      using False step by simp
    from less [OF this, of ?w1] obtain w' where w':
      "pollFrom e this code (t + pollIntervalSeconds code) ?w1 = Some (Thrown AuthTimeoutError, w')"
      "length (calls w') = length (calls ?w1)
         + (expiresInSeconds code - (t + pollIntervalSeconds code)) div pollIntervalSeconds code"
      "console w' = console ?w1"
      by blast
    have "(expiresInSeconds code - t) div pollIntervalSeconds code =
        Suc ((expiresInSeconds code - t - pollIntervalSeconds code) div pollIntervalSeconds code)"
      using False step by (simp add: le_div_geq)
    with w' again show ?thesis
      by simp
  qed
qed

text \<open>
  C2. For a poll interval greater than zero, on a client with an auth URL and a
  transport that answers every request with a response whose status is not 200, the
  polling loop terminates with \<open>AuthTimeoutError\<close>. It has made
  \<open>expiresInSeconds div pollIntervalSeconds\<close> attempts, which is at most the
  interval count rounded up; the last of them was made no later than
  \<open>expiresInSeconds\<close> after the device code was issued; and nothing was written to
  the console.
\<close>

theorem polling_stops_at_expiry:
  assumes step: "0 < pollIntervalSeconds code"
    and cred: "bigCommerceAuthUrl this \<noteq> []"
    and pend: "\<forall>cs q. \<exists>r. transport e cs q = Inr r \<and> status r \<noteq> 200"
  shows "\<exists>w'. pollForToken e this code w = Some (Thrown AuthTimeoutError, w')
    \<and> length (calls w') = length (calls w) + expiresInSeconds code div pollIntervalSeconds code
    \<and> length (calls w') - length (calls w)
        \<le> (expiresInSeconds code + pollIntervalSeconds code - 1) div pollIntervalSeconds code
    \<and> (length (calls w') - length (calls w)) * pollIntervalSeconds code \<le> expiresInSeconds code
    \<and> console w' = console w"
proof -
  from pollFrom_pending [OF assms, of 0 w] obtain w' where w':
    "pollFrom e this code 0 w = Some (Thrown AuthTimeoutError, w')"
    "length (calls w') = length (calls w) + expiresInSeconds code div pollIntervalSeconds code"
    "console w' = console w"
    by auto
  have "expiresInSeconds code div pollIntervalSeconds code
      \<le> (expiresInSeconds code + pollIntervalSeconds code - 1) div pollIntervalSeconds code"
    by (rule div_le_mono) (use step in simp)
  moreover have "expiresInSeconds code div pollIntervalSeconds code * pollIntervalSeconds code
      \<le> expiresInSeconds code"
    by simp
  ultimately show ?thesis
    using w' by (auto simp: pollForToken_def)
qed

theorem polling_stops_at_expiry_witness:
  "\<exists>w'. pollForToken (canned server_error) demo_client demo_device_code fresh =
        Some (Thrown AuthTimeoutError, w')
     \<and> length (calls w') = 12 \<and> 12 \<le> (60 + 5 - 1) div (5::nat) \<and> console w' = []"
proof -
  have step: "0 < pollIntervalSeconds demo_device_code"
    by (simp add: demo_device_code_def)
  have cred: "bigCommerceAuthUrl demo_client \<noteq> []"
    by (simp add: demo_client_fields)
  have pend: "\<forall>cs q. \<exists>r. transport (canned server_error) cs q = Inr r \<and> status r \<noteq> 200"
    by (simp add: canned_def server_error_def)
  from polling_stops_at_expiry [OF step cred pend, of fresh] show ?thesis
    by (auto simp: demo_device_code_def fresh_def)
qed

end
